theory Spec2Isabelle
  imports Main "HOL-Library.Finite_Map" "HOL-Library.Sublist" "HOL-Library.Multiset"
begin

section \<open>Values, errors and the filesystem\<close>

text \<open>
  A JSON value as \<^verbatim>\<open>JSON.parse\<close> returns it. An object is a finite map from keys to
  values: key order plays no part in property lookup nor in Ramda's \<^verbatim>\<open>equals\<close>,
  which on such values is structural equality. Numbers occur only as opaque manifest
  values and no arithmetic is done on them.
\<close>

datatype json =
    JNull
  | JBool bool
  | JNum int
  | JStr string
  | JArr "json list"
  | JObj "(string, json) fmap"

text \<open>
  A thrown value. Filesystem errors carry a \<^verbatim>\<open>code\<close>; the others have none.
\<close>

datatype error =
    FsError string
  | SyntaxError
  | TypeError
  | Error string

fun code :: "error \<Rightarrow> string option" where
  "code (FsError c) = Some c"
| "code _ = None"

definition bindE :: "'e + 'a \<Rightarrow> ('a \<Rightarrow> 'e + 'b) \<Rightarrow> 'e + 'b" where
  "bindE m f = (case m of Inl e \<Rightarrow> Inl e | Inr x \<Rightarrow> f x)"

text \<open>
  A path is its list of segments, so \<^verbatim>\<open>path.join\<close> is concatenation (segments are
  taken to be plain names, never empty, \<^verbatim>\<open>.\<close> or \<^verbatim>\<open>..\<close>).
\<close>

type_synonym path = "string list"

definition path_join :: "path \<Rightarrow> path \<Rightarrow> path" where
  "path_join a b = a @ b"

text \<open>
  The content of a file, up to what \<^verbatim>\<open>JSON.parse\<close> makes of it: \<open>Json j\<close> is a text
  that parses to \<open>j\<close>, \<open>Text s\<close> is a text that does not parse.
\<close>

datatype filedata = Text string | Json json

definition JSON_parse :: "filedata \<Rightarrow> error + json" where
  "JSON_parse d = (case d of Json j \<Rightarrow> Inr j | Text _ \<Rightarrow> Inl SyntaxError)"

definition JSON_stringify :: "json \<Rightarrow> filedata" where
  "JSON_stringify j = Json j"

datatype node = File filedata | Dir

type_synonym filesystem = "path \<Rightarrow> node option"

fun is_file :: "node option \<Rightarrow> bool" where
  "is_file (Some (File _)) = True"
| "is_file _ = False"

definition existsSync :: "filesystem \<Rightarrow> path \<Rightarrow> bool" where
  "existsSync fs p = (fs p \<noteq> None)"

definition readFile :: "filesystem \<Rightarrow> path \<Rightarrow> error + filedata" where
  "readFile fs p =
     (case fs p of
        None \<Rightarrow> Inl (FsError ''ENOENT'')
      | Some Dir \<Rightarrow> Inl (FsError ''EISDIR'')
      | Some (File d) \<Rightarrow> Inr d)"

definition writeFileSync :: "path \<Rightarrow> filedata \<Rightarrow> filesystem \<Rightarrow> error + filesystem" where
  "writeFileSync p d fs =
     (case fs p of
        Some Dir \<Rightarrow> Inl (FsError ''EISDIR'')
      | _ \<Rightarrow>
        (case fs (butlast p) of
           None \<Rightarrow> Inl (FsError ''ENOENT'')
         | Some (File _) \<Rightarrow> Inl (FsError ''ENOTDIR'')
         | Some Dir \<Rightarrow> Inr (fs(p \<mapsto> File d))))"

text \<open>
  \<^verbatim>\<open>fs.ensureDir\<close>: the directory and its missing ancestors are created; a file in
  the way is an error.
\<close>

definition ensureDir :: "path \<Rightarrow> filesystem \<Rightarrow> error + filesystem" where
  "ensureDir d fs =
     (if \<exists>p \<in> set (prefixes d). is_file (fs p) then Inl (FsError ''ENOTDIR'')
      else Inr (\<lambda>p. if prefix p d then Some Dir else fs p))"

text \<open>
  \<^verbatim>\<open>fs.emptyDir\<close>: everything below the directory is deleted, the directory itself
  stays (and is created when missing).
\<close>

definition emptyDir :: "path \<Rightarrow> filesystem \<Rightarrow> error + filesystem" where
  "emptyDir d fs = ensureDir d (\<lambda>p. if strict_prefix d p then None else fs p)"

section \<open>The environment's installed marker (environment.ts)\<close>

definition ENV_IS_INSTALLED_FILENAME :: string where
  "ENV_IS_INSTALLED_FILENAME = ''.bit_env_has_installed''"

text \<open>
  Modelled from the spec: the utility \<^verbatim>\<open>outputFile\<close> that environment.ts imports is not
  among the sources. The spec (section 9) describes the installed marker as a sentinel
  file on the filesystem, so the helper is taken to write \<open>content\<close> at \<open>filePath\<close>
  after creating the missing parent directories.
\<close>

definition outputFile :: "path \<Rightarrow> string \<Rightarrow> filesystem \<Rightarrow> error + filesystem" where
  "outputFile filePath content fs =
     bindE (ensureDir (butlast filePath) fs) (writeFileSync filePath (Text content))"

definition markEnvironmentAsInstalled :: "path \<Rightarrow> filesystem \<Rightarrow> error + filesystem" where
  "markEnvironmentAsInstalled dir fs =
     (let filePath = path_join dir [ENV_IS_INSTALLED_FILENAME]
      in outputFile filePath '''' fs)"

definition isEnvironmentInstalled :: "path \<Rightarrow> filesystem \<Rightarrow> bool" where
  "isEnvironmentInstalled dir fs =
     (let filePath = path_join dir [ENV_IS_INSTALLED_FILENAME]
      in existsSync fs filePath)"

section \<open>Components, capsules and options (isolator.main.runtime.ts)\<close>

text \<open>
  Modelled from the spec: the classes BitId and ComponentID are imported from files that
  are not among the sources. By section 3 the identity of a component is its id and its
  version, which a component that is not yet versioned lacks; two ids are equal when both
  agree.
\<close>

record BitId =
  id_name :: string
  id_version :: "string option"

type_synonym ComponentID = BitId

definition hasVersion :: "BitId \<Rightarrow> bool" where
  "hasVersion i = (id_version i \<noteq> None)"

definition isEqual :: "BitId \<Rightarrow> BitId \<Rightarrow> bool" where
  "isEqual a b = (a = b)"

definition toString :: "BitId \<Rightarrow> string" where
  "toString i = (case id_version i of None \<Rightarrow> id_name i | Some v \<Rightarrow> id_name i @ ''@'' @ v)"

text \<open>
  The legacy component that a component wraps (\<^verbatim>\<open>component.state._consumer\<close>), with
  the three sets of component dependencies that the manifest is computed from.
\<close>

record ConsumerComponent =
  consumer_id :: BitId
  dependencies :: "BitId list"
  devDependencies :: "BitId list"
  extensionsBitIds :: "BitId list"

record Component =
  component_id :: ComponentID
  consumer :: ConsumerComponent

text \<open>
  A capsule: its directory and its component. Its filesystem handle \<^verbatim>\<open>capsule.fs\<close> is
  the view of the disk below \<open>capsule_path\<close>.
\<close>

record Capsule =
  capsule_path :: path
  component :: Component

type_synonym CapsuleList = "Capsule list"

text \<open>
  Modelled from the spec: the class CapsuleList is not among the sources. The spec calls
  it an ordered collection of capsules with lookup by component id, so \<open>fromArray\<close>
  keeps the array as it is and \<open>getCapsule\<close> returns the first capsule of that id.
\<close>

definition fromArray :: "Capsule list \<Rightarrow> CapsuleList" where
  "fromArray capsules = capsules"

definition getCapsule :: "CapsuleList \<Rightarrow> ComponentID \<Rightarrow> Capsule option" where
  "getCapsule capsuleList i = find (\<lambda>c. isEqual (component_id (component c)) i) capsuleList"

type_synonym manifest = "(string, json) fmap"

record CapsulePackageJsonData =
  capsule :: Capsule
  currentPackageJson :: "manifest option"
  previousPackageJson :: json

record IsolateComponentsInstallOptions =
  installPackages :: "bool option"
  dedupe :: "bool option"
  copyPeerToRuntimeOnComponents :: "bool option"
  copyPeerToRuntimeOnRoot :: "bool option"
  installTeambitBit :: "bool option"

record LinkingOptions =
  legacyLink :: "bool option"
  otherLinkingOptions :: "(string \<times> json) list"

record IsolateComponentsOptions =
  name :: "string option"
  baseDir :: "path option"
  alwaysNew :: "bool option"
  installOptions :: "IsolateComponentsInstallOptions option"
  linkingOptions :: "LinkingOptions option"
  emptyRootDir :: "bool option"
  skipIfExists :: "bool option"
  getExistingAsIs :: "bool option"
  cachePackagesOnCapsulesRoot :: "bool option"
  seedersOnly :: "bool option"

text \<open>An optional flag is taken when it is present and true.\<close>

definition truthy :: "bool option \<Rightarrow> bool" where
  "truthy b = (b = Some True)"

definition DEFAULT_ISOLATE_INSTALL_OPTIONS :: IsolateComponentsInstallOptions where
  "DEFAULT_ISOLATE_INSTALL_OPTIONS =
     \<lparr>installPackages = Some True, dedupe = Some True,
      copyPeerToRuntimeOnComponents = Some False, copyPeerToRuntimeOnRoot = Some True,
      installTeambitBit = None\<rparr>"

text \<open>\<^verbatim>\<open>Object.assign\<close> on one property: a property that the later object has wins.\<close>

definition assign :: "'a option \<Rightarrow> 'a option \<Rightarrow> 'a option" where
  "assign a b = (case b of None \<Rightarrow> a | Some v \<Rightarrow> Some v)"

definition assignInstallOptions ::
  "IsolateComponentsInstallOptions \<Rightarrow> IsolateComponentsInstallOptions \<Rightarrow> IsolateComponentsInstallOptions"
where
  "assignInstallOptions a b =
     \<lparr>installPackages = assign (installPackages a) (installPackages b),
      dedupe = assign (dedupe a) (dedupe b),
      copyPeerToRuntimeOnComponents =
        assign (copyPeerToRuntimeOnComponents a) (copyPeerToRuntimeOnComponents b),
      copyPeerToRuntimeOnRoot = assign (copyPeerToRuntimeOnRoot a) (copyPeerToRuntimeOnRoot b),
      installTeambitBit = assign (installTeambitBit a) (installTeambitBit b)\<rparr>"

definition emptyInstallOptions :: IsolateComponentsInstallOptions where
  "emptyInstallOptions =
     \<lparr>installPackages = None, dedupe = None, copyPeerToRuntimeOnComponents = None,
      copyPeerToRuntimeOnRoot = None, installTeambitBit = None\<rparr>"

definition emptyLinkingOptions :: LinkingOptions where
  "emptyLinkingOptions = \<lparr>legacyLink = None, otherLinkingOptions = []\<rparr>"

record InstallOptions =
  io_installTeambitBit :: bool

record PackageManagerInstallOptions =
  pm_dedupe :: "bool option"
  pm_copyPeerToRuntimeOnComponents :: "bool option"
  pm_copyPeerToRuntimeOnRoot :: "bool option"

text \<open>
  Modelled from the spec: the workspace policy belongs to the dependency resolver. The
  spec calls the peer-only policy the subset of the workspace's declared policy restricted
  to peer-type entries.
\<close>

record PolicyEntry =
  dependencyId :: string
  policy_version :: string
  lifecycleType :: string

type_synonym WorkspacePolicy = "PolicyEntry list"

definition byLifecycleType :: "WorkspacePolicy \<Rightarrow> string \<Rightarrow> WorkspacePolicy" where
  "byLifecycleType policy t = filter (\<lambda>e. lifecycleType e = t) policy"

type_synonym ComponentMap = "(Component \<times> path) list"

type_synonym Scope = string

record ComponentWriterProps =
  cw_component :: ConsumerComponent
  cw_writeToPath :: string
  cw_origin :: string
  cw_scope :: "Scope option"
  cw_override :: bool
  cw_writePackageJson :: bool
  cw_writeConfig :: bool
  cw_ignoreBitDependencies :: "BitId list"
  cw_excludeRegistryPrefix :: bool
  cw_isolated :: bool

record GraphNode =
  node_id :: string
  attr :: Component

record Graph =
  nodes :: "GraphNode list"
  edges :: "(string \<times> string) list"

record Network =
  network_capsules :: CapsuleList
  seedersIds :: "ComponentID list"
  capsulesRootDir :: path

record ListResults =
  lr_workspace :: path
  lr_capsules :: "path list"

section \<open>Collaborators\<close>

text \<open>
  The calls that leave the isolator: to the installer and the linker of the dependency
  resolver, to the symlink helpers and to the component writer. A call is recorded with
  the arguments that the isolator passes.
\<close>

type_synonym DataToPersist = "(path \<times> filedata) list"

datatype call =
    InstallerInstall path "path option" path WorkspacePolicy ComponentMap
      InstallOptions PackageManagerInstallOptions
  | LinkerLink path LinkingOptions path WorkspacePolicy ComponentMap LinkingOptions
  | SymlinkOnCapsuleRoot CapsuleList path
  | SymlinkDependenciesToCapsules "Capsule list" CapsuleList
  | SymlinkBitBinToCapsules "Capsule list"
  | PopulateComponentsFilesToWrite ComponentWriterProps
  | PersistAllToCapsule ConsumerComponent Capsule

text \<open>
  What surrounds the isolator: the constants it imports, the libraries it calls and its
  collaborators. \<open>collaborator\<close> is the effect on the disk (or the failure) of a call to
  the installer of the dependency resolver; \<open>readdir\<close> is the directory listing of the
  operating system. \<open>populateComponentsFilesToWrite\<close> is the component
  writer: the files, by their paths relative to the capsule, that it computes for a
  component. \<open>linksOf\<close> gives the links, as pairs of the link's path and its target, that
  a call to the linker or to a symlink helper asks for. \<open>resumeOrder\<close> is the order in
  which the runtime resumes the tasks of a batch that are waiting.
\<close>

record Env =
  CACHE_ROOT :: path
  DEPENDENCIES_FIELDS :: "string list"
  hash :: "path \<Rightarrow> string"
  v4 :: "nat \<Rightarrow> string"
  componentIdToPackageName :: "ConsumerComponent \<Rightarrow> BitId \<Rightarrow> string"
  capsuleDirName :: "ComponentID \<Rightarrow> string"
  host_path :: path
  host_getMany :: "ComponentID list \<Rightarrow> error + Component list"
  host_hasId :: "ComponentID \<Rightarrow> error + bool"
  getGraph :: "ComponentID list \<Rightarrow> error + Graph"
  successorsSubgraph :: "Graph \<Rightarrow> string list \<Rightarrow> Graph"
  getWorkspacePolicy :: WorkspacePolicy
  readdir :: "filesystem \<Rightarrow> path \<Rightarrow> error + string list"
  collaborator :: "call \<Rightarrow> filesystem \<Rightarrow> error + filesystem"
  populateComponentsFilesToWrite :: "ComponentWriterProps \<Rightarrow> error + DataToPersist"
  linksOf :: "call \<Rightarrow> (path \<times> path) list"
  resumeOrder :: "(Component \<times> Capsule) list \<Rightarrow> (Component \<times> Capsule) list"

text \<open>
  The state of a run: the files and directories of the disk, the calls made so far, how
  many random identifiers were drawn, and the symbolic links of the disk, each by its path
  with its target.
\<close>

record World =
  files :: filesystem
  calls :: "call list"
  uuids_drawn :: nat
  links :: "path \<Rightarrow> path option"

definition perform :: "Env \<Rightarrow> call \<Rightarrow> World \<Rightarrow> error + World" where
  "perform env c w =
     bindE (collaborator env c (files w))
       (\<lambda>fs. Inr (w\<lparr>files := fs, calls := calls w @ [c]\<rparr>))"

text \<open>
  A loop (\<^verbatim>\<open>forEach\<close>) runs in the order of the array and ends at the first failure. A
  batch of tasks that only read, or that only ensure directories (\<^verbatim>\<open>Promise.all\<close> over
  the existence checks, the snapshot and the creation of the capsules), is run like a
  loop: what it returns does not depend on the order of its tasks, and after a failure
  the world is not looked at again. The batch of the write phase is modelled task by task
  (see \<open>writeComponentsInCapsules\<close>).
\<close>

fun mapE :: "('a \<Rightarrow> 'e + 'b) \<Rightarrow> 'a list \<Rightarrow> 'e + 'b list" where
  "mapE f [] = Inr []"
| "mapE f (x # xs) = bindE (f x) (\<lambda>y. bindE (mapE f xs) (\<lambda>ys. Inr (y # ys)))"

fun forEachE :: "('a \<Rightarrow> 's \<Rightarrow> 'e + 's) \<Rightarrow> 'a list \<Rightarrow> 's \<Rightarrow> 'e + 's" where
  "forEachE f [] s = Inr s"
| "forEachE f (x # xs) s = bindE (f x s) (forEachE f xs)"

fun mapStateE :: "('a \<Rightarrow> 's \<Rightarrow> 'e + 'b \<times> 's) \<Rightarrow> 'a list \<Rightarrow> 's \<Rightarrow> 'e + 'b list \<times> 's" where
  "mapStateE f [] s = Inr ([], s)"
| "mapStateE f (x # xs) s =
     bindE (f x s) (\<lambda>(y, s1). bindE (mapStateE f xs s1) (\<lambda>(ys, s2). Inr (y # ys, s2)))"

text \<open>
  The tasks of a batch that runs every task to its end, whatever becomes of the others:
  the result is the first failure, if any, and the state that all the tasks leave.
\<close>

fun settleAll :: "('a \<Rightarrow> 's \<Rightarrow> 'e option \<times> 's) \<Rightarrow> 'a list \<Rightarrow> 's \<Rightarrow> 'e option \<times> 's" where
  "settleAll f [] s = (None, s)"
| "settleAll f (x # xs) s =
     (case f x s of
        (e1, s1) \<Rightarrow>
          (case settleAll f xs s1 of
             (e2, s2) \<Rightarrow> ((case e1 of Some e \<Rightarrow> Some e | None \<Rightarrow> e2), s2)))"

fun filterE :: "('a \<Rightarrow> 'e + bool) \<Rightarrow> 'a list \<Rightarrow> 'e + 'a list" where
  "filterE f [] = Inr []"
| "filterE f (x # xs) =
     bindE (f x) (\<lambda>keep. bindE (filterE f xs) (\<lambda>ys. Inr (if keep then x # ys else ys)))"

section \<open>The isolation root and graph resolution\<close>

definition CAPSULES_BASE_DIR :: "Env \<Rightarrow> path" where
  "CAPSULES_BASE_DIR env = path_join (CACHE_ROOT env) [''capsules'']"

definition getCapsulesRootDir :: "Env \<Rightarrow> path \<Rightarrow> path" where
  "getCapsulesRootDir env base = path_join (CAPSULES_BASE_DIR env) [hash env base]"

text \<open>lodash's \<^verbatim>\<open>compact\<close> on an array of components and \<^verbatim>\<open>undefined\<close>.\<close>

fun compact :: "'a option list \<Rightarrow> 'a list" where
  "compact [] = []"
| "compact (None # xs) = compact xs"
| "compact (Some x # xs) = x # compact xs"

definition createGraph :: "Env \<Rightarrow> ComponentID list \<Rightarrow> error + Component list" where
  "createGraph env seeders =
     bindE (getGraph env seeders) (\<lambda>graph.
       let sub = successorsSubgraph env graph (map toString seeders);
           compsAndDeps = map attr (nodes sub)
       in bindE (mapE (\<lambda>c. bindE (host_hasId env (component_id c))
                         (\<lambda>existing. Inr (if existing then Some c else None))) compsAndDeps)
            (\<lambda>existingComps. Inr (compact existingComps)))"

section \<open>Capsule creation\<close>

text \<open>
  Modelled from the spec: the class Capsule is not among the sources. By section 4.2 the
  capsule's path joins the isolation root and a stable identifier of the component, with a
  random suffix when \<open>alwaysNew\<close> is set, and the directory is ensured to exist.
\<close>

definition createFromComponent ::
  "Env \<Rightarrow> Component \<Rightarrow> path \<Rightarrow> IsolateComponentsOptions \<Rightarrow> World \<Rightarrow> error + Capsule \<times> World"
where
  "createFromComponent env component' isolationRoot opts w =
     (let dirName = capsuleDirName env (component_id component');
          suffixed = truthy (alwaysNew opts);
          wrkDir = path_join isolationRoot
                     [if suffixed then dirName @ ''_'' @ v4 env (uuids_drawn w) else dirName];
          w1 = (if suffixed then w\<lparr>uuids_drawn := Suc (uuids_drawn w)\<rparr> else w)
      in bindE (ensureDir wrkDir (files w1))
           (\<lambda>fs. Inr (\<lparr>capsule_path = wrkDir, component = component'\<rparr>, w1\<lparr>files := fs\<rparr>)))"

definition createCapsulesFromComponents ::
  "Env \<Rightarrow> Component list \<Rightarrow> path \<Rightarrow> IsolateComponentsOptions \<Rightarrow> World
    \<Rightarrow> error + Capsule list \<times> World"
where
  "createCapsulesFromComponents env components base opts w =
     mapStateE (\<lambda>component'. createFromComponent env component' base opts) components w"

section \<open>Package manifests: snapshot, current manifest, diff\<close>

text \<open>
  Modelled from the spec: the constant \<^verbatim>\<open>PACKAGE_JSON\<close> is imported from a file that is
  not among the sources. The spec knows one package manifest file per capsule, the one
  that the snapshot reads under the name \<^verbatim>\<open>package.json\<close>.
\<close>

definition PACKAGE_JSON :: string where
  "PACKAGE_JSON = ''package.json''"

text \<open>What \<^verbatim>\<open>!x\<close> is true for, on a JSON value.\<close>

fun falsy :: "json \<Rightarrow> bool" where
  "falsy JNull = True"
| "falsy (JBool b) = (\<not> b)"
| "falsy (JNum n) = (n = 0)"
| "falsy (JStr s) = (s = [])"
| "falsy _ = False"

text \<open>
  Reading the property \<open>field\<close> of a value: \<open>None\<close> is \<^verbatim>\<open>undefined\<close>, and reading a
  property of \<^verbatim>\<open>null\<close> throws. The fields read here are names of manifest sections, which
  no number, string or array has as a property.
\<close>

fun getProperty :: "json \<Rightarrow> string \<Rightarrow> error + json option" where
  "getProperty JNull field = Inl TypeError"
| "getProperty (JObj m) field = Inr (fmlookup m field)"
| "getProperty _ field = Inr None"

text \<open>
  \<^verbatim>\<open>DEPENDENCIES_FIELDS.some((field) => !equals(previous[field], current[field]))\<close>,
  where the current manifest may still be unset.
\<close>

fun someFieldDiffers :: "string list \<Rightarrow> json \<Rightarrow> manifest option \<Rightarrow> error + bool" where
  "someFieldDiffers [] previous current = Inr False"
| "someFieldDiffers (field # rest) previous current =
     bindE (getProperty previous field) (\<lambda>a.
       case current of
         None \<Rightarrow> Inl TypeError
       | Some cur \<Rightarrow>
           if a \<noteq> fmlookup cur field then Inr True
           else someFieldDiffers rest previous current)"

definition wereDependenciesInPackageJsonChanged ::
  "Env \<Rightarrow> CapsulePackageJsonData \<Rightarrow> error + bool"
where
  "wereDependenciesInPackageJsonChanged env capsuleWithPackageData =
     (if falsy (previousPackageJson capsuleWithPackageData) then Inr True
      else someFieldDiffers (DEPENDENCIES_FIELDS env)
             (previousPackageJson capsuleWithPackageData)
             (currentPackageJson capsuleWithPackageData))"

text \<open>
  The task of the snapshot for one capsule: whatever reading or parsing throws is caught,
  and the previous manifest stays \<^verbatim>\<open>null\<close>.
\<close>

definition previousPackageJsonOf :: "filesystem \<Rightarrow> Capsule \<Rightarrow> error + CapsulePackageJsonData" where
  "previousPackageJsonOf fs c =
     (let packageJsonPath = path_join (capsule_path c) [''package.json''];
          previous = (case bindE (readFile fs packageJsonPath) JSON_parse of
                        Inl e \<Rightarrow> JNull
                      | Inr j \<Rightarrow> j)
      in Inr \<lparr>capsule = c, currentPackageJson = None, previousPackageJson = previous\<rparr>)"

definition getCapsulesPreviousPackageJson ::
  "Capsule list \<Rightarrow> filesystem \<Rightarrow> error + CapsulePackageJsonData list"
where
  "getCapsulesPreviousPackageJson capsules fs = mapE (previousPackageJsonOf fs) capsules"

text \<open>
  Modelled from the spec: the class PackageJsonFile is not among the sources. By sections
  3 and 4.4 the current manifest is the capsule's manifest on disk with the component's
  own dependencies merged in, no other entry removed; a capsule without a readable
  manifest object has no manifest to load.
\<close>

definition loadFromCapsuleSync :: "filesystem \<Rightarrow> path \<Rightarrow> error + manifest" where
  "loadFromCapsuleSync fs capsuleRootDir =
     bindE (readFile fs (path_join capsuleRootDir [PACKAGE_JSON])) (\<lambda>raw.
       bindE (JSON_parse raw) (\<lambda>j.
         case j of JObj m \<Rightarrow> Inr m | _ \<Rightarrow> Inl (Error ''package.json is not an object'')))"

definition addToSection :: "string \<Rightarrow> manifest \<Rightarrow> manifest \<Rightarrow> manifest" where
  "addToSection field deps packageJsonObject =
     fmupd field
       (JObj (fmadd (case fmlookup packageJsonObject field of Some (JObj m) \<Rightarrow> m | _ \<Rightarrow> fmempty)
                deps))
       packageJsonObject"

definition addDependencies :: "manifest \<Rightarrow> manifest \<Rightarrow> manifest" where
  "addDependencies deps packageJsonObject = addToSection ''dependencies'' deps packageJsonObject"

definition addDevDependencies :: "manifest \<Rightarrow> manifest \<Rightarrow> manifest" where
  "addDevDependencies deps packageJsonObject =
     addToSection ''devDependencies'' deps packageJsonObject"

definition addOrUpdateProperty :: "string \<Rightarrow> json \<Rightarrow> manifest \<Rightarrow> manifest" where
  "addOrUpdateProperty propertyName propertyValue packageJsonObject =
     fmupd propertyName propertyValue packageJsonObject"

definition newVersion :: string where
  "newVersion = ''0.0.1-new''"

text \<open>\<^verbatim>\<open>id.hasVersion() ? id.version : newVersion\<close>.\<close>

definition versionOrNew :: "BitId \<Rightarrow> string" where
  "versionOrNew i =
     (if hasVersion i then (case id_version i of Some v \<Rightarrow> v | None \<Rightarrow> newVersion)
      else newVersion)"

definition getBitDependencies :: "Env \<Rightarrow> ConsumerComponent \<Rightarrow> BitId list \<Rightarrow> manifest" where
  "getBitDependencies env consumerComponent deps =
     fold (\<lambda>depId acc.
             fmupd (componentIdToPackageName env consumerComponent depId)
               (JStr (versionOrNew depId)) acc)
       deps fmempty"

definition getCurrentPackageJson :: "Env \<Rightarrow> Capsule \<Rightarrow> filesystem \<Rightarrow> error + manifest" where
  "getCurrentPackageJson env c fs =
     (let component' = component c;
          consumerComponent = consumer component';
          bitDependencies = getBitDependencies env consumerComponent (dependencies consumerComponent);
          bitDevDependencies =
            getBitDependencies env consumerComponent (devDependencies consumerComponent);
          bitExtensionDependencies =
            getBitDependencies env consumerComponent (extensionsBitIds consumerComponent)
      in bindE (loadFromCapsuleSync fs (capsule_path c)) (\<lambda>packageJson.
           Inr (addOrUpdateProperty ''version'' (JStr (versionOrNew (component_id component')))
                  (addDevDependencies (fmadd bitDevDependencies bitExtensionDependencies)
                     (addDependencies bitDependencies packageJson)))))"

text \<open>
  \<^verbatim>\<open>capsulesWithPackagesData.find(...)\<close> followed by the assignment to the entry found:
  the first entry that satisfies \<open>P\<close> gets the current manifest; \<open>None\<close> when there is
  no such entry.
\<close>

fun setCurrentOfFound ::
  "(CapsulePackageJsonData \<Rightarrow> bool) \<Rightarrow> manifest \<Rightarrow> CapsulePackageJsonData list
    \<Rightarrow> CapsulePackageJsonData list option"
where
  "setCurrentOfFound P m [] = None"
| "setCurrentOfFound P m (d # ds) =
     (if P d then Some (d\<lparr>currentPackageJson := Some m\<rparr> # ds)
      else map_option (\<lambda>ds'. d # ds') (setCurrentOfFound P m ds))"

definition updateWithCurrentPackageJsonData ::
  "Env \<Rightarrow> CapsulePackageJsonData list \<Rightarrow> Capsule list \<Rightarrow> filesystem
    \<Rightarrow> error + CapsulePackageJsonData list"
where
  "updateWithCurrentPackageJsonData env capsulesWithPackagesData capsules fs =
     forEachE (\<lambda>c ds.
        bindE (getCurrentPackageJson env c fs) (\<lambda>packageJson.
          case setCurrentOfFound
                 (\<lambda>d. isEqual (component_id (component (capsule d))) (component_id (component c)))
                 packageJson ds of
            None \<Rightarrow> Inl (Error (''updateWithCurrentPackageJsonData unable to find ''
                                 @ toString (component_id (component c))))
          | Some ds' \<Rightarrow> Inr ds'))
       capsules capsulesWithPackagesData"

section \<open>Write, install and link\<close>

definition getPeersOnlyPolicy :: "Env \<Rightarrow> WorkspacePolicy" where
  "getPeersOnlyPolicy env = byLifecycleType (getWorkspacePolicy env) ''peer''"

definition toComponentMap :: "CapsuleList \<Rightarrow> ComponentMap" where
  "toComponentMap capsuleList = map (\<lambda>c. (component c, capsule_path c)) capsuleList"

text \<open>
  The parameters of the component writer; the fresh \<^verbatim>\<open>BitMap\<close> and the undefined
  consumer are left out.
\<close>

definition getComponentWriteParams ::
  "ConsumerComponent \<Rightarrow> BitId list \<Rightarrow> Scope option \<Rightarrow> ComponentWriterProps"
where
  "getComponentWriteParams consumerComponent ids legacyScope =
     \<lparr>cw_component = consumerComponent, cw_writeToPath = ''.'', cw_origin = ''IMPORTED'',
      cw_scope = legacyScope, cw_override = False, cw_writePackageJson = True,
      cw_writeConfig = False, cw_ignoreBitDependencies = ids,
      cw_excludeRegistryPrefix = False, cw_isolated = True\<rparr>"

text \<open>
  Modelled from the spec: the class of \<^verbatim>\<open>dataToPersist\<close> is not among the sources. By
  section 4.3 the component's files are persisted into its capsule, overwriting only the
  files that the component owns and preserving everything else that is there. A file is
  written with its missing parent directories; the files are written in their order, and
  a failure leaves what was written before it.
\<close>

definition persistFile :: "path \<Rightarrow> filedata \<Rightarrow> filesystem \<Rightarrow> error + filesystem" where
  "persistFile p d fs = bindE (ensureDir (butlast p) fs) (writeFileSync p d)"

fun persistAllToCapsule :: "DataToPersist \<Rightarrow> Capsule \<Rightarrow> filesystem \<Rightarrow> error option \<times> filesystem" where
  "persistAllToCapsule [] c fs = (None, fs)"
| "persistAllToCapsule ((relativePath, d) # rest) c fs =
     (case persistFile (path_join (capsule_path c) relativePath) d fs of
        Inl e \<Rightarrow> (Some e, fs)
      | Inr fs1 \<Rightarrow> persistAllToCapsule rest c fs1)"

text \<open>
  The write phase is \<^verbatim>\<open>Promise.all\<close> over one task per component. A task whose component
  has no capsule returns at once. Every other task runs, when the array is mapped, up to
  its first \<^verbatim>\<open>await\<close>, which is on the call of \<^verbatim>\<open>populateComponentsFilesToWrite\<close>: these
  calls are made in the order of the array, before any task goes on. \<open>writeTasks\<close> are
  the tasks that wait then, each with its component and its capsule.
\<close>

definition writeTasks :: "CapsuleList \<Rightarrow> Component list \<Rightarrow> (Component \<times> Capsule) list" where
  "writeTasks capsuleList components =
     concat (map (\<lambda>component'.
                    case getCapsule capsuleList (component_id component') of
                      None \<Rightarrow> []
                    | Some c \<Rightarrow> [(component', c)])
               components)"

definition populateCall :: "BitId list \<Rightarrow> Scope option \<Rightarrow> Component \<times> Capsule \<Rightarrow> call" where
  "populateCall allIds legacyScope t =
     PopulateComponentsFilesToWrite (getComponentWriteParams (consumer (fst t)) allIds legacyScope)"

definition persistCall :: "Component \<times> Capsule \<Rightarrow> call" where
  "persistCall t = PersistAllToCapsule (consumer (fst t)) (snd t)"

text \<open>
  A task that is resumed: when the component writer has failed the task fails; otherwise
  the files are persisted into the capsule. The persisting of one task is taken as one
  step, not interleaved with that of another.
\<close>

definition resumeWriteTask ::
  "Env \<Rightarrow> BitId list \<Rightarrow> Scope option \<Rightarrow> Component \<times> Capsule \<Rightarrow> World \<Rightarrow> error option \<times> World"
where
  "resumeWriteTask env allIds legacyScope t w =
     (case populateComponentsFilesToWrite env
             (getComponentWriteParams (consumer (fst t)) allIds legacyScope) of
        Inl e \<Rightarrow> (Some e, w)
      | Inr dataToPersist \<Rightarrow>
          (case persistAllToCapsule dataToPersist (snd t) (files w) of
             (failure, fs) \<Rightarrow> (failure, w\<lparr>files := fs, calls := calls w @ [persistCall t]\<rparr>)))"

text \<open>
  The tasks are resumed in the order that the runtime chooses, and each runs to its end
  whether another has failed or not. \<open>runWriteTasks\<close> gives the first failure, if any,
  and the world that the tasks leave; \<^verbatim>\<open>await Promise.all(...)\<close> throws that failure.
\<close>

definition runWriteTasks ::
  "Env \<Rightarrow> Component list \<Rightarrow> CapsuleList \<Rightarrow> Scope option \<Rightarrow> World \<Rightarrow> error option \<times> World"
where
  "runWriteTasks env components capsuleList legacyScope w =
     (let legacyComponents = map consumer components;
          allIds = map consumer_id legacyComponents;
          tasks = writeTasks capsuleList components;
          started = w\<lparr>calls := calls w @ map (populateCall allIds legacyScope) tasks\<rparr>
      in settleAll (resumeWriteTask env allIds legacyScope) (resumeOrder env tasks) started)"

definition writeComponentsInCapsules ::
  "Env \<Rightarrow> Component list \<Rightarrow> CapsuleList \<Rightarrow> Scope option \<Rightarrow> World \<Rightarrow> error + World"
where
  "writeComponentsInCapsules env components capsuleList legacyScope w =
     (case runWriteTasks env components capsuleList legacyScope w of
        (None, w1) \<Rightarrow> Inr w1
      | (Some e, w1) \<Rightarrow> Inl e)"

definition installInCapsules ::
  "Env \<Rightarrow> path \<Rightarrow> CapsuleList \<Rightarrow> IsolateComponentsInstallOptions \<Rightarrow> bool \<Rightarrow> World
    \<Rightarrow> error + World"
where
  "installInCapsules env capsulesDir capsuleList isolateInstallOptions cachePackages w =
     (let peerOnlyPolicy = getPeersOnlyPolicy env;
          installOpts = \<lparr>io_installTeambitBit = truthy (installTeambitBit isolateInstallOptions)\<rparr>;
          packageManagerInstallOptions =
            \<lparr>pm_dedupe = dedupe isolateInstallOptions,
             pm_copyPeerToRuntimeOnComponents = copyPeerToRuntimeOnComponents isolateInstallOptions,
             pm_copyPeerToRuntimeOnRoot = copyPeerToRuntimeOnRoot isolateInstallOptions\<rparr>
      in perform env
           (InstallerInstall capsulesDir (if cachePackages then Some capsulesDir else None)
              capsulesDir peerOnlyPolicy (toComponentMap capsuleList)
              installOpts packageManagerInstallOptions) w)"

definition getCapsulesWithModifiedPackageJson ::
  "Env \<Rightarrow> CapsulePackageJsonData list \<Rightarrow> error + Capsule list"
where
  "getCapsulesWithModifiedPackageJson env capsulesWithPackagesData =
     bindE (filterE (wereDependenciesInPackageJsonChanged env) capsulesWithPackagesData)
       (\<lambda>changed. Inr (map capsule changed))"

text \<open>
  Modelled from the spec: the linker of the dependency resolver and the symlink helpers
  are not among the sources. By section 4.6 they establish the links that let a capsule
  resolve its dependencies, and relinking a link that is already correct is a no-op,
  never an error. A link that points elsewhere is replaced; a file or a directory in the
  place of the link is an error. Which links a call asks for is left to \<open>linksOf\<close>.
\<close>

definition symlink :: "path \<Rightarrow> path \<Rightarrow> World \<Rightarrow> error + World" where
  "symlink target linkPath w =
     (if files w linkPath \<noteq> None then Inl (FsError ''EEXIST'')
      else Inr (w\<lparr>links := (links w)(linkPath \<mapsto> target)\<rparr>))"

definition establish :: "Env \<Rightarrow> call \<Rightarrow> World \<Rightarrow> error + World" where
  "establish env c w =
     bindE (forEachE (\<lambda>(linkPath, target). symlink target linkPath) (linksOf env c) w)
       (\<lambda>w1. Inr (w1\<lparr>calls := calls w1 @ [c]\<rparr>))"

text \<open>
  \<^verbatim>\<open>getLinker({ rootDir, linkingOptions }).link(dir, policy, componentMap, options)\<close>.
\<close>

definition linker_link ::
  "Env \<Rightarrow> path \<Rightarrow> LinkingOptions \<Rightarrow> path \<Rightarrow> WorkspacePolicy \<Rightarrow> ComponentMap \<Rightarrow> LinkingOptions
    \<Rightarrow> World \<Rightarrow> error + World"
where
  "linker_link env rootDir linkingOpts dir policy componentMap options w =
     establish env (LinkerLink rootDir linkingOpts dir policy componentMap options) w"

definition symlinkOnCapsuleRoot :: "Env \<Rightarrow> CapsuleList \<Rightarrow> path \<Rightarrow> World \<Rightarrow> error + World" where
  "symlinkOnCapsuleRoot env capsuleList capsulesDir w =
     establish env (SymlinkOnCapsuleRoot capsuleList capsulesDir) w"

definition symlinkDependenciesToCapsules ::
  "Env \<Rightarrow> Capsule list \<Rightarrow> CapsuleList \<Rightarrow> World \<Rightarrow> error + World"
where
  "symlinkDependenciesToCapsules env capsules capsuleList w =
     establish env (SymlinkDependenciesToCapsules capsules capsuleList) w"

definition symlinkBitBinToCapsules :: "Env \<Rightarrow> Capsule list \<Rightarrow> World \<Rightarrow> error + World" where
  "symlinkBitBinToCapsules env capsules w = establish env (SymlinkBitBinToCapsules capsules) w"

definition linkInCapsules ::
  "Env \<Rightarrow> path \<Rightarrow> CapsuleList \<Rightarrow> CapsulePackageJsonData list \<Rightarrow> LinkingOptions \<Rightarrow> World
    \<Rightarrow> error + World"
where
  "linkInCapsules env capsulesDir capsuleList capsulesWithPackagesData linkingOpts w =
     (let peerOnlyPolicy = getPeersOnlyPolicy env
      in bindE (getCapsulesWithModifiedPackageJson env capsulesWithPackagesData)
           (\<lambda>capsulesWithModifiedPackageJson.
         bindE (linker_link env capsulesDir linkingOpts capsulesDir peerOnlyPolicy
                  (toComponentMap capsuleList) (linkingOpts\<lparr>legacyLink := Some False\<rparr>) w)
           (\<lambda>w1.
         bindE (symlinkOnCapsuleRoot env capsuleList capsulesDir w1)
           (\<lambda>w2.
         bindE (symlinkDependenciesToCapsules env capsulesWithModifiedPackageJson capsuleList w2)
           (\<lambda>w3.
         symlinkBitBinToCapsules env capsulesWithModifiedPackageJson w3)))))"

section \<open>The coordinating sequence\<close>

text \<open>
  The body of the last loop of \<^verbatim>\<open>createCapsules\<close>: the current manifest of the entry
  is written through the capsule's filesystem handle.
\<close>

definition writeCurrentPackageJson :: "CapsulePackageJsonData \<Rightarrow> filesystem \<Rightarrow> error + filesystem" where
  "writeCurrentPackageJson capsuleWithPackageData fs =
     (case currentPackageJson capsuleWithPackageData of
        None \<Rightarrow> Inl TypeError
      | Some m \<Rightarrow>
          writeFileSync (path_join (capsule_path (capsule capsuleWithPackageData)) [PACKAGE_JSON])
            (JSON_stringify (JObj m)) fs)"

definition createCapsules ::
  "Env \<Rightarrow> Component list \<Rightarrow> IsolateComponentsOptions \<Rightarrow> Scope option \<Rightarrow> World
    \<Rightarrow> error + CapsuleList \<times> World"
where
  "createCapsules env components opts legacyScope w =
     (case baseDir opts of
        None \<Rightarrow> Inl (Error ''Object argument required.'')
      | Some base \<Rightarrow>
     let capsulesDir = getCapsulesRootDir env base
     in bindE (if truthy (emptyRootDir opts)
               then bindE (emptyDir capsulesDir (files w)) (\<lambda>fs. Inr (w\<lparr>files := fs\<rparr>))
               else Inr w)
          (\<lambda>w1.
        bindE (createCapsulesFromComponents env components capsulesDir opts w1)
          (\<lambda>(capsules, w2).
        let capsuleList = fromArray capsules;
            existingCapsules =
              fromArray (filter (\<lambda>c. existsSync (files w2) (path_join (capsule_path c) [''package.json'']))
                           capsuleList)
        in if truthy (getExistingAsIs opts) then Inr (capsuleList, w2)
           else if truthy (skipIfExists opts) \<and> length existingCapsules = length capsuleList
           then Inr (existingCapsules, w2)
           else
        bindE (getCapsulesPreviousPackageJson capsules (files w2))
          (\<lambda>capsulesWithPackagesData0.
        bindE (writeComponentsInCapsules env components capsuleList legacyScope w2)
          (\<lambda>w3.
        bindE (updateWithCurrentPackageJsonData env capsulesWithPackagesData0 capsules (files w3))
          (\<lambda>capsulesWithPackagesData.
        let installOpts =
              assignInstallOptions DEFAULT_ISOLATE_INSTALL_OPTIONS
                (case installOptions opts of None \<Rightarrow> emptyInstallOptions | Some io \<Rightarrow> io)
        in bindE (if truthy (installPackages installOpts)
                  then bindE (installInCapsules env capsulesDir capsuleList installOpts
                                (truthy (cachePackagesOnCapsulesRoot opts)) w3)
                         (linkInCapsules env capsulesDir capsuleList capsulesWithPackagesData
                            (case linkingOptions opts of
                               None \<Rightarrow> emptyLinkingOptions | Some lo \<Rightarrow> lo))
                  else Inr w3)
          (\<lambda>w4.
        bindE (forEachE writeCurrentPackageJson capsulesWithPackagesData (files w4))
          (\<lambda>fs. Inr (capsuleList, w4\<lparr>files := fs\<rparr>)))))))))"

text \<open>\<^verbatim>\<open>opts.baseDir || host.path\<close>: an absent or empty base directory gives the host's path.\<close>

definition baseDirOrHostPath :: "Env \<Rightarrow> IsolateComponentsOptions \<Rightarrow> path" where
  "baseDirOrHostPath env opts =
     (case baseDir opts of
        None \<Rightarrow> host_path env
      | Some b \<Rightarrow> if b = [] then host_path env else b)"

definition isolateComponents ::
  "Env \<Rightarrow> ComponentID list \<Rightarrow> IsolateComponentsOptions \<Rightarrow> Scope option \<Rightarrow> World
    \<Rightarrow> error + Network \<times> World"
where
  "isolateComponents env seeders opts legacyScope w =
     bindE (if truthy (seedersOnly opts) then host_getMany env seeders
            else createGraph env seeders)
       (\<lambda>componentsToIsolate.
     let base = baseDirOrHostPath env opts;
         opts1 = opts\<lparr>baseDir := Some base\<rparr>
     in bindE (createCapsules env componentsToIsolate opts1 legacyScope w)
          (\<lambda>(capsuleList, w1).
             Inr (\<lparr>network_capsules = capsuleList, seedersIds = seeders,
                   capsulesRootDir = getCapsulesRootDir env base\<rparr>, w1)))"

section \<open>Listing the capsules of a workspace\<close>

definition list :: "Env \<Rightarrow> path \<Rightarrow> World \<Rightarrow> error + ListResults" where
  "list env workspacePath w =
     (let workspaceCapsuleFolder = getCapsulesRootDir env workspacePath
      in case readdir env (files w) workspaceCapsuleFolder of
           Inr capsules \<Rightarrow>
             Inr \<lparr>lr_workspace = workspacePath,
                  lr_capsules = map (\<lambda>c. path_join workspaceCapsuleFolder [c]) capsules\<rparr>
         | Inl e \<Rightarrow>
             if code e = Some ''ENOENT''
             then Inr \<lparr>lr_workspace = workspacePath, lr_capsules = []\<rparr>
             else Inl e)"

section \<open>Intermediate states of a run\<close>

text \<open>
  \<open>writePhase\<close> names the state that \<^verbatim>\<open>createCapsules\<close> has reached, on a run that is
  not cut short, when the components are written and the current manifests are computed:
  the manifest data of the capsules and the world.
\<close>

definition writePhase ::
  "Env \<Rightarrow> Component list \<Rightarrow> IsolateComponentsOptions \<Rightarrow> Scope option \<Rightarrow> World
    \<Rightarrow> error + CapsulePackageJsonData list \<times> World"
where
  "writePhase env components opts legacyScope w =
     (case baseDir opts of
        None \<Rightarrow> Inl (Error ''Object argument required.'')
      | Some base \<Rightarrow>
     let capsulesDir = getCapsulesRootDir env base
     in bindE (if truthy (emptyRootDir opts)
               then bindE (emptyDir capsulesDir (files w)) (\<lambda>fs. Inr (w\<lparr>files := fs\<rparr>))
               else Inr w)
          (\<lambda>w1.
        bindE (createCapsulesFromComponents env components capsulesDir opts w1)
          (\<lambda>(capsules, w2).
        bindE (getCapsulesPreviousPackageJson capsules (files w2))
          (\<lambda>capsulesWithPackagesData0.
        bindE (writeComponentsInCapsules env components (fromArray capsules) legacyScope w2)
          (\<lambda>w3.
        bindE (updateWithCurrentPackageJsonData env capsulesWithPackagesData0 capsules (files w3))
          (\<lambda>capsulesWithPackagesData. Inr (capsulesWithPackagesData, w3)))))))"


text \<open>The capsules that a call to a collaborator is given to work on.\<close>

fun capsulePathsOfCall :: "call \<Rightarrow> path list" where
  "capsulePathsOfCall (InstallerInstall _ _ _ _ componentMap _ _) = map snd componentMap"
| "capsulePathsOfCall (LinkerLink _ _ _ _ componentMap _) = map snd componentMap"
| "capsulePathsOfCall (SymlinkOnCapsuleRoot capsuleList _) = map capsule_path capsuleList"
| "capsulePathsOfCall (SymlinkDependenciesToCapsules cs _) = map capsule_path cs"
| "capsulePathsOfCall (SymlinkBitBinToCapsules cs) = map capsule_path cs"
| "capsulePathsOfCall (PopulateComponentsFilesToWrite _) = []"
| "capsulePathsOfCall (PersistAllToCapsule _ c) = [capsule_path c]"

section \<open>A small workspace to run the isolator on\<close>

text \<open>
  Component \<open>a\<close> depends on component \<open>b\<close>; the graph of \<open>a\<close> has both. The component
  writer of this workspace computes a source file and a manifest that leaves out the
  dependencies on other components; the installer leaves the disk alone; the linker
  links every capsule to the packages installed at the root, and the symlink helpers link
  every capsule below the root, every capsule to the capsules of its dependencies, and to
  the tool's own runtime; waiting tasks are resumed last first.
\<close>

definition idA :: BitId where
  "idA = \<lparr>id_name = ''a'', id_version = Some ''1.0.0''\<rparr>"

definition idB :: BitId where
  "idB = \<lparr>id_name = ''b'', id_version = Some ''1.0.0''\<rparr>"

definition compA :: Component where
  "compA = \<lparr>component_id = idA,
            consumer = \<lparr>consumer_id = idA, dependencies = [idB], devDependencies = [],
                        extensionsBitIds = []\<rparr>\<rparr>"

definition compB :: Component where
  "compB = \<lparr>component_id = idB,
            consumer = \<lparr>consumer_id = idB, dependencies = [], devDependencies = [],
                        extensionsBitIds = []\<rparr>\<rparr>"

definition writtenManifest :: "BitId \<Rightarrow> manifest" where
  "writtenManifest i = fmap_of_list [(''name'', JStr (id_name i))]"

definition mockCollaborator :: "call \<Rightarrow> filesystem \<Rightarrow> error + filesystem" where
  "mockCollaborator c fs = Inr fs"

definition mockWriter :: "ComponentWriterProps \<Rightarrow> error + DataToPersist" where
  "mockWriter props =
     Inr [([''index.js''], Text ''source''),
          ([''package.json''], Json (JObj (writtenManifest (consumer_id (cw_component props)))))]"

definition mockLinksOf :: "call \<Rightarrow> (path \<times> path) list" where
  "mockLinksOf c =
     (case c of
        LinkerLink rootDir linkingOpts dir policy componentMap options \<Rightarrow>
          map (\<lambda>(component', capsulePath).
                 (capsulePath @ [''node_modules'', ''.root''], dir @ [''node_modules'']))
            componentMap
      | SymlinkOnCapsuleRoot capsuleList capsulesDir \<Rightarrow>
          map (\<lambda>cap. (capsulesDir @ [''node_modules'', id_name (component_id (component cap))],
                       capsule_path cap))
            capsuleList
      | SymlinkDependenciesToCapsules capsules capsuleList \<Rightarrow>
          concat (map (\<lambda>cap.
                    concat (map (\<lambda>dep.
                              case getCapsule capsuleList dep of
                                None \<Rightarrow> []
                              | Some depCapsule \<Rightarrow>
                                  [(capsule_path cap @ [''node_modules'', id_name dep],
                                    capsule_path depCapsule)])
                            (dependencies (consumer (component cap))
                             @ devDependencies (consumer (component cap))
                             @ extensionsBitIds (consumer (component cap)))))
                  capsules)
      | SymlinkBitBinToCapsules capsules \<Rightarrow>
          map (\<lambda>cap. (capsule_path cap @ [''node_modules'', ''bit-bin''], [''bit-bin''])) capsules
      | _ \<Rightarrow> [])"

definition mockReaddir :: "filesystem \<Rightarrow> path \<Rightarrow> error + string list" where
  "mockReaddir fs p =
     (case fs p of
        None \<Rightarrow> Inl (FsError ''ENOENT'')
      | Some (File _) \<Rightarrow> Inl (FsError ''ENOTDIR'')
      | Some Dir \<Rightarrow> Inr (filter (\<lambda>n. fs (p @ [n]) \<noteq> None) [''a@1.0.0'', ''b@1.0.0'']))"

definition mockEnv :: Env where
  "mockEnv =
     \<lparr>CACHE_ROOT = [''cache''],
      DEPENDENCIES_FIELDS = [''dependencies'', ''devDependencies'', ''peerDependencies''],
      hash = concat,
      v4 = (\<lambda>n. replicate (Suc n) CHR ''x''),
      componentIdToPackageName = (\<lambda>consumerComponent i. id_name i),
      capsuleDirName = toString,
      host_path = [''ws''],
      host_getMany = mapE (\<lambda>i. if i = idA then Inr compA
                                 else if i = idB then Inr compB
                                 else Inl (Error ''NotFound'')),
      host_hasId = (\<lambda>i. Inr (i = idA)),
      getGraph = (\<lambda>seeders.
        Inr \<lparr>nodes = [\<lparr>node_id = toString idA, attr = compA\<rparr>,
                       \<lparr>node_id = toString idB, attr = compB\<rparr>],
             edges = [(toString idA, toString idB)]\<rparr>),
      successorsSubgraph = (\<lambda>graph ids. graph),
      getWorkspacePolicy =
        [\<lparr>dependencyId = ''r'', policy_version = ''^1.0.0'', lifecycleType = ''peer''\<rparr>],
      readdir = mockReaddir,
      collaborator = mockCollaborator,
      populateComponentsFilesToWrite = mockWriter,
      linksOf = mockLinksOf,
      resumeOrder = rev\<rparr>"

definition noOptions :: IsolateComponentsOptions where
  "noOptions =
     \<lparr>name = None, baseDir = None, alwaysNew = None, installOptions = None, linkingOptions = None,
      emptyRootDir = None, skipIfExists = None, getExistingAsIs = None,
      cachePackagesOnCapsulesRoot = None, seedersOnly = None\<rparr>"

definition mockRoot :: path where
  "mockRoot = [''cache'', ''capsules'', ''ws'']"

definition capA :: Capsule where
  "capA = \<lparr>capsule_path = mockRoot @ [''a@1.0.0''], component = compA\<rparr>"

definition capB :: Capsule where
  "capB = \<lparr>capsule_path = mockRoot @ [''b@1.0.0''], component = compB\<rparr>"

text \<open>The manifests that a full run leaves in the capsules of \<open>a\<close> and \<open>b\<close>.\<close>

definition finalManifestA :: manifest where
  "finalManifestA =
     fmap_of_list
       [(''name'', JStr ''a''), (''version'', JStr ''1.0.0''),
        (''dependencies'', JObj (fmap_of_list [(''b'', JStr ''1.0.0'')])),
        (''devDependencies'', JObj fmempty)]"

definition finalManifestB :: manifest where
  "finalManifestB =
     fmap_of_list
       [(''name'', JStr ''b''), (''version'', JStr ''1.0.0''),
        (''dependencies'', JObj fmempty), (''devDependencies'', JObj fmempty)]"

text \<open>An empty disk, and the disk as a full run on \<open>a\<close> and \<open>b\<close> leaves it.\<close>

definition emptyDisk :: filesystem where
  "emptyDisk = Map.empty([] \<mapsto> Dir)"

definition isolatedDisk :: filesystem where
  "isolatedDisk =
     emptyDisk
       ([''cache''] \<mapsto> Dir,
        [''cache'', ''capsules''] \<mapsto> Dir,
        mockRoot \<mapsto> Dir,
        capsule_path capA \<mapsto> Dir,
        capsule_path capA @ [''index.js''] \<mapsto> File (Text ''source''),
        capsule_path capA @ [''package.json''] \<mapsto> File (Json (JObj finalManifestA)),
        capsule_path capB \<mapsto> Dir,
        capsule_path capB @ [''index.js''] \<mapsto> File (Text ''source''),
        capsule_path capB @ [''package.json''] \<mapsto> File (Json (JObj finalManifestB)))"

definition worldOf :: "filesystem \<Rightarrow> World" where
  "worldOf fs = \<lparr>files = fs, calls = [], uuids_drawn = 0, links = Map.empty\<rparr>"

text \<open>A disk on which the isolation root of the workspace is a file.\<close>

definition fileAtRootDisk :: filesystem where
  "fileAtRootDisk =
     emptyDisk([''cache''] \<mapsto> Dir, [''cache'', ''capsules''] \<mapsto> Dir, mockRoot \<mapsto> File (Text ''x''))"

text \<open>A manifest with a name and one dependency \<open>x\<close>.\<close>

definition manifestX :: "string \<Rightarrow> string \<Rightarrow> manifest" where
  "manifestX n v =
     fmap_of_list [(''name'', JStr n), (''dependencies'', JObj (fmap_of_list [(''x'', JStr v)]))]"

text \<open>
  The disk of the isolated workspace after the manifest of \<open>a\<close> was deleted and the
  manifest of \<open>b\<close> was overwritten with a text that is not JSON.
\<close>

definition brokenDisk :: filesystem where
  "brokenDisk =
     isolatedDisk
       (capsule_path capA @ [''package.json''] := None,
        capsule_path capB @ [''package.json''] \<mapsto> File (Text ''{ name: ''))"

definition otherOptions :: IsolateComponentsOptions where
  "otherOptions =
     noOptions\<lparr>baseDir := Some [''ws''], alwaysNew := Some True, seedersOnly := Some True\<rparr>"

text \<open>
  The manifest data of the capsule of \<open>a\<close> on a second run: the previous manifest has the
  dependency sections of the current one.
\<close>

definition unchangedA :: CapsulePackageJsonData where
  "unchangedA =
     \<lparr>capsule = capA, currentPackageJson = Some finalManifestA,
      previousPackageJson = JObj finalManifestA\<rparr>"

text \<open>
  The manifest data of a run in which the capsule of \<open>a\<close> is new and that of \<open>b\<close> has its
  manifest from before.
\<close>

definition changedA :: "CapsulePackageJsonData list" where
  "changedA =
     [\<lparr>capsule = capA, currentPackageJson = Some finalManifestA, previousPackageJson = JNull\<rparr>,
      \<lparr>capsule = capB, currentPackageJson = Some finalManifestB,
       previousPackageJson = JObj finalManifestB\<rparr>]"

text \<open>
  The world after the links of such a run were made: every link that the linking pass
  asks for is there and points to its target.
\<close>

definition linkedWorld :: World where
  "linkedWorld =
     (worldOf isolatedDisk)
       \<lparr>links :=
          Map.empty
            (mockRoot @ [''node_modules'', ''a''] \<mapsto> capsule_path capA,
             mockRoot @ [''node_modules'', ''b''] \<mapsto> capsule_path capB,
             capsule_path capA @ [''node_modules'', ''b''] \<mapsto> capsule_path capB,
             capsule_path capA @ [''node_modules'', ''bit-bin''] \<mapsto> [''bit-bin''],
             capsule_path capA @ [''node_modules'', ''.root''] \<mapsto> mockRoot @ [''node_modules''],
             capsule_path capB @ [''node_modules'', ''.root''] \<mapsto> mockRoot @ [''node_modules''])\<rparr>"

text \<open>Options that ask for the existing capsules as they are, with and without emptying the root.\<close>

definition asIsAfterWipe :: IsolateComponentsOptions where
  "asIsAfterWipe =
     noOptions\<lparr>baseDir := Some [''ws''], getExistingAsIs := Some True, emptyRootDir := Some True\<rparr>"

definition asIs :: IsolateComponentsOptions where
  "asIs = noOptions\<lparr>baseDir := Some [''ws''], getExistingAsIs := Some True\<rparr>"

text \<open>
  \<open>cutShort\<close> says whether \<^verbatim>\<open>createCapsules\<close> returns right after the capsules are
  created, because \<open>getExistingAsIs\<close> is set or because \<open>skipIfExists\<close> is set and every
  capsule has a manifest.
\<close>

definition cutShort :: "Env \<Rightarrow> Component list \<Rightarrow> IsolateComponentsOptions \<Rightarrow> World \<Rightarrow> bool" where
  "cutShort env components opts w =
     (case baseDir opts of
        None \<Rightarrow> False
      | Some base \<Rightarrow>
     let capsulesDir = getCapsulesRootDir env base
     in case bindE (if truthy (emptyRootDir opts)
                    then bindE (emptyDir capsulesDir (files w)) (\<lambda>fs. Inr (w\<lparr>files := fs\<rparr>))
                    else Inr w)
               (createCapsulesFromComponents env components capsulesDir opts) of
          Inl e \<Rightarrow> False
        | Inr (capsules, w2) \<Rightarrow>
            truthy (getExistingAsIs opts)
            \<or> truthy (skipIfExists opts)
              \<and> length (filter (\<lambda>c. existsSync (files w2)
                                         (path_join (capsule_path c) [''package.json'']))
                           (fromArray capsules))
                  = length (fromArray capsules))"

text \<open>The options of a full run on the workspace.\<close>

definition fullRun :: IsolateComponentsOptions where
  "fullRun = noOptions\<lparr>baseDir := Some [''ws'']\<rparr>"

text \<open>
  An entry of the manifest data whose current manifest is set holds the manifest that
  \<open>getCurrentPackageJson\<close> computes, on the disk \<open>fs\<close>, for a capsule of the entry's
  component id.
\<close>

definition computedFor :: "Env \<Rightarrow> filesystem \<Rightarrow> Capsule list \<Rightarrow> CapsulePackageJsonData \<Rightarrow> bool" where
  "computedFor env fs cs d =
     (case currentPackageJson d of
        None \<Rightarrow> True
      | Some m \<Rightarrow>
          (\<exists>c \<in> set cs. component_id (component c) = component_id (component (capsule d))
                        \<and> getCurrentPackageJson env c fs = Inr m))"

section \<open>The installed marker\<close>

lemma writeFileSync_at: "writeFileSync p d fs = Inr fs' \<Longrightarrow> fs' p = Some (File d)"
  by (auto simp: writeFileSync_def split: option.splits node.splits)

text \<open>
  Claim C10. When \<^verbatim>\<open>markEnvironmentAsInstalled(dir)\<close> has completed,
  \<^verbatim>\<open>isEnvironmentInstalled(dir)\<close> is true; where nothing exists at the marker's path it
  is false; and the check is the existence of the file \<^verbatim>\<open>.bit_env_has_installed\<close> in
  the directory.
\<close>

theorem marked_environment_is_installed:
  "(markEnvironmentAsInstalled dir fs = Inr fs' \<longrightarrow> isEnvironmentInstalled dir fs')
   \<and> (fs (path_join dir [ENV_IS_INSTALLED_FILENAME]) = None \<longrightarrow> \<not> isEnvironmentInstalled dir fs)
   \<and> (isEnvironmentInstalled dir fs \<longleftrightarrow> existsSync fs (path_join dir [''.bit_env_has_installed'']))"
  by (auto simp: markEnvironmentAsInstalled_def isEnvironmentInstalled_def outputFile_def bindE_def
      existsSync_def Let_def ENV_IS_INSTALLED_FILENAME_def dest: writeFileSync_at split: sum.splits)

theorem marked_environment_is_installed_witness:
  "(case markEnvironmentAsInstalled [''env''] emptyDisk of
      Inr fs' \<Rightarrow> isEnvironmentInstalled [''env''] fs'
    | Inl e \<Rightarrow> False)
   \<and> emptyDisk (path_join [''env''] [ENV_IS_INSTALLED_FILENAME]) = None
   \<and> \<not> isEnvironmentInstalled [''env''] emptyDisk"
proof -
  have "case markEnvironmentAsInstalled [''env''] emptyDisk of Inr fs' \<Rightarrow> True | Inl e \<Rightarrow> False"
    by code_simp
  then obtain fs' where r: "markEnvironmentAsInstalled [''env''] emptyDisk = Inr fs'"
    by (auto split: sum.splits)
  have n: "emptyDisk (path_join [''env''] [ENV_IS_INSTALLED_FILENAME]) = None"
    by code_simp
  from marked_environment_is_installed [of "[''env'']" emptyDisk fs'] r n
  show ?thesis by simp
qed

section \<open>Listing\<close>

text \<open>
  Claim C6. \<^verbatim>\<open>list\<close> returns the workspace path and the full paths of the entries of
  the isolation root computed from it; when listing the root fails with the code
  \<^verbatim>\<open>ENOENT\<close> it returns the workspace path with no capsules; any other failure of the
  listing is the failure of \<^verbatim>\<open>list\<close>.
\<close>

theorem list_of_capsules:
  "(readdir env (files w) (getCapsulesRootDir env workspacePath) = Inr names \<longrightarrow>
      list env workspacePath w =
        Inr \<lparr>lr_workspace = workspacePath,
             lr_capsules = map (\<lambda>c. path_join (getCapsulesRootDir env workspacePath) [c]) names\<rparr>)
   \<and> (readdir env (files w) (getCapsulesRootDir env workspacePath) = Inl e \<longrightarrow>
        code e = Some ''ENOENT'' \<longrightarrow>
        list env workspacePath w = Inr \<lparr>lr_workspace = workspacePath, lr_capsules = []\<rparr>)
   \<and> (readdir env (files w) (getCapsulesRootDir env workspacePath) = Inl e \<longrightarrow>
        code e \<noteq> Some ''ENOENT'' \<longrightarrow>
        list env workspacePath w = Inl e)"
  by (simp add: list_def Let_def)

theorem list_of_capsules_witness:
  "readdir mockEnv (files (worldOf isolatedDisk)) (getCapsulesRootDir mockEnv [''ws''])
     = Inr [''a@1.0.0'', ''b@1.0.0'']
   \<and> list mockEnv [''ws''] (worldOf isolatedDisk) =
       Inr \<lparr>lr_workspace = [''ws''],
            lr_capsules = [[''cache'', ''capsules'', ''ws'', ''a@1.0.0''],
                           [''cache'', ''capsules'', ''ws'', ''b@1.0.0'']]\<rparr>
   \<and> readdir mockEnv (files (worldOf emptyDisk)) (getCapsulesRootDir mockEnv [''ws''])
       = Inl (FsError ''ENOENT'')
   \<and> list mockEnv [''ws''] (worldOf emptyDisk) = Inr \<lparr>lr_workspace = [''ws''], lr_capsules = []\<rparr>
   \<and> readdir mockEnv (files (worldOf fileAtRootDisk)) (getCapsulesRootDir mockEnv [''ws''])
       = Inl (FsError ''ENOTDIR'')
   \<and> list mockEnv [''ws''] (worldOf fileAtRootDisk) = Inl (FsError ''ENOTDIR'')"
proof -
  have a: "readdir mockEnv (files (worldOf isolatedDisk)) (getCapsulesRootDir mockEnv [''ws''])
     = Inr [''a@1.0.0'', ''b@1.0.0'']" by code_simp
  have b: "readdir mockEnv (files (worldOf emptyDisk)) (getCapsulesRootDir mockEnv [''ws''])
       = Inl (FsError ''ENOENT'')" by code_simp
  have c: "readdir mockEnv (files (worldOf fileAtRootDisk)) (getCapsulesRootDir mockEnv [''ws''])
       = Inl (FsError ''ENOTDIR'')" by code_simp
  have r: "getCapsulesRootDir mockEnv [''ws''] = [''cache'', ''capsules'', ''ws'']" by code_simp
  from list_of_capsules [of mockEnv "worldOf isolatedDisk" "[''ws'']" "[''a@1.0.0'', ''b@1.0.0'']"]
       list_of_capsules [of mockEnv "worldOf emptyDisk" "[''ws'']" _ "FsError ''ENOENT''"]
       list_of_capsules [of mockEnv "worldOf fileAtRootDisk" "[''ws'']" _ "FsError ''ENOTDIR''"]
       a b c
  show ?thesis by (simp add: r path_join_def)
qed

section \<open>The manifest diff\<close>

lemma someFieldDiffers_objects:
  "someFieldDiffers fs (JObj p) (Some c) = Inr (\<exists>f \<in> set fs. fmlookup p f \<noteq> fmlookup c f)"
  by (induction fs) (auto simp: bindE_def)

text \<open>
  Claim C4. The diff of an absent previous manifest is \<open>changed\<close>, whatever the current
  manifest; the diff of a previous and a current manifest is \<open>changed\<close> exactly when they
  differ on one of the dependency fields; so manifests that agree with them on the
  dependency fields have the same diff, whatever their other fields.
\<close>

theorem manifest_diff:
  "wereDependenciesInPackageJsonChanged env
     \<lparr>capsule = c, currentPackageJson = cur, previousPackageJson = JNull\<rparr> = Inr True
   \<and> wereDependenciesInPackageJsonChanged env
       \<lparr>capsule = c, currentPackageJson = Some current, previousPackageJson = JObj previous\<rparr>
       = Inr (\<exists>field \<in> set (DEPENDENCIES_FIELDS env).
                fmlookup previous field \<noteq> fmlookup current field)
   \<and> ((\<forall>field \<in> set (DEPENDENCIES_FIELDS env).
          fmlookup previous' field = fmlookup previous field
          \<and> fmlookup current' field = fmlookup current field) \<longrightarrow>
        wereDependenciesInPackageJsonChanged env
          \<lparr>capsule = c, currentPackageJson = Some current', previousPackageJson = JObj previous'\<rparr>
        = wereDependenciesInPackageJsonChanged env
            \<lparr>capsule = c, currentPackageJson = Some current, previousPackageJson = JObj previous\<rparr>)"
  by (simp add: wereDependenciesInPackageJsonChanged_def someFieldDiffers_objects)

theorem manifest_diff_witness:
  "wereDependenciesInPackageJsonChanged mockEnv
     \<lparr>capsule = capA, currentPackageJson = Some (manifestX ''q'' ''1.0.0''),
      previousPackageJson = JObj (manifestX ''p'' ''1.0.0'')\<rparr> = Inr False
   \<and> wereDependenciesInPackageJsonChanged mockEnv
       \<lparr>capsule = capA, currentPackageJson = Some (manifestX ''p'' ''2.0.0''),
        previousPackageJson = JObj (manifestX ''p'' ''1.0.0'')\<rparr> = Inr True
   \<and> wereDependenciesInPackageJsonChanged mockEnv
       \<lparr>capsule = capA, currentPackageJson = None, previousPackageJson = JNull\<rparr> = Inr True
   \<and> list_all (\<lambda>field. fmlookup (manifestX ''q'' ''1.0.0'') field
                          = fmlookup (manifestX ''p'' ''1.0.0'') field)
         (DEPENDENCIES_FIELDS mockEnv)"
proof -
  have f: "DEPENDENCIES_FIELDS mockEnv = [''dependencies'', ''devDependencies'', ''peerDependencies'']"
    by (simp add: mockEnv_def)
  have ne: "fmupd ''x'' (JStr ''1.0.0'') fmempty \<noteq> fmupd ''x'' (JStr ''2.0.0'') fmempty"
  proof
    assume "fmupd ''x'' (JStr ''1.0.0'') fmempty = fmupd ''x'' (JStr ''2.0.0'') fmempty"
    then have "fmlookup (fmupd ''x'' (JStr ''1.0.0'') fmempty) ''x''
             = fmlookup (fmupd ''x'' (JStr ''2.0.0'') fmempty) ''x''"
      by (rule arg_cong)
    then show False by simp
  qed
  from manifest_diff [of mockEnv capA None "manifestX ''q'' ''1.0.0''" "manifestX ''p'' ''1.0.0''"
                        "manifestX ''p'' ''1.0.0''" "manifestX ''p'' ''1.0.0''"]
       manifest_diff [of mockEnv capA None "manifestX ''p'' ''2.0.0''" "manifestX ''p'' ''1.0.0''"
                        "manifestX ''p'' ''1.0.0''" "manifestX ''p'' ''1.0.0''"]
  show ?thesis
    by (simp add: f manifestX_def ne)
qed

section \<open>The snapshot of the previous manifests\<close>

lemma mapE_total:
  "(\<And>x. x \<in> set xs \<Longrightarrow> f x = Inr (g x)) \<Longrightarrow> mapE f xs = Inr (map g xs)"
  by (induction xs) (simp_all add: bindE_def)

lemma getCapsulesPreviousPackageJson_eq:
  "getCapsulesPreviousPackageJson capsules fs =
     Inr (map (\<lambda>c. \<lparr>capsule = c, currentPackageJson = None,
                     previousPackageJson =
                       (case bindE (readFile fs (path_join (capsule_path c) [''package.json''])) JSON_parse of
                          Inl e \<Rightarrow> JNull
                        | Inr j \<Rightarrow> j)\<rparr>) capsules)"
  unfolding getCapsulesPreviousPackageJson_def
  by (rule mapE_total) (simp add: previousPackageJsonOf_def Let_def)

text \<open>
  Claim C5. The snapshot of the previous manifests always returns: its result has one
  entry per capsule, in the order of the capsules, and the previous manifest of an entry
  is \<^verbatim>\<open>null\<close> when the capsule's manifest file cannot be read or does not parse, and
  the parsed manifest otherwise.
\<close>

theorem snapshot_never_fails:
  "\<exists>ds. getCapsulesPreviousPackageJson capsules fs = Inr ds
        \<and> map capsule ds = capsules
        \<and> length ds = length capsules
        \<and> (\<forall>d \<in> set ds.
             case readFile fs (path_join (capsule_path (capsule d)) [''package.json'']) of
               Inl e \<Rightarrow> previousPackageJson d = JNull
             | Inr raw \<Rightarrow>
                 (case JSON_parse raw of
                    Inl e \<Rightarrow> previousPackageJson d = JNull
                  | Inr j \<Rightarrow> previousPackageJson d = j))"
  by (auto simp: getCapsulesPreviousPackageJson_eq comp_def bindE_def split: sum.splits)

theorem snapshot_never_fails_witness:
  "readFile brokenDisk (path_join (capsule_path capA) [''package.json'']) = Inl (FsError ''ENOENT'')
   \<and> bindE (readFile brokenDisk (path_join (capsule_path capB) [''package.json''])) JSON_parse
       = Inl SyntaxError
   \<and> (case getCapsulesPreviousPackageJson [capA, capB] brokenDisk of
        Inr ds \<Rightarrow> map capsule ds = [capA, capB] \<and> map previousPackageJson ds = [JNull, JNull]
      | Inl e \<Rightarrow> False)"
proof -
  have a: "readFile brokenDisk (path_join (capsule_path capA) [''package.json''])
             = Inl (FsError ''ENOENT'')"
    by code_simp
  have b: "readFile brokenDisk (path_join (capsule_path capB) [''package.json''])
             = Inr (Text ''{ name: '')"
    by code_simp
  have c: "JSON_parse (Text ''{ name: '') = Inl SyntaxError"
    by (simp add: JSON_parse_def)
  from snapshot_never_fails [of "[capA, capB]" brokenDisk]
  obtain ds where r: "getCapsulesPreviousPackageJson [capA, capB] brokenDisk = Inr ds"
    and m: "map capsule ds = [capA, capB]"
    and p: "\<forall>d \<in> set ds.
             case readFile brokenDisk (path_join (capsule_path (capsule d)) [''package.json'']) of
               Inl e \<Rightarrow> previousPackageJson d = JNull
             | Inr raw \<Rightarrow>
                 (case JSON_parse raw of
                    Inl e \<Rightarrow> previousPackageJson d = JNull
                  | Inr j \<Rightarrow> previousPackageJson d = j)"
    by (elim exE conjE)
  from m obtain d1 d2 where ds: "ds = [d1, d2]" and c1: "capsule d1 = capA" and c2: "capsule d2 = capB"
    by (auto simp: map_eq_Cons_conv)
  from p ds c1 c2 a b c have "previousPackageJson d1 = JNull" "previousPackageJson d2 = JNull"
    by simp_all
  with r m ds a b c show ?thesis by (simp add: bindE_def)
qed

section \<open>The isolation root\<close>

lemma isolateComponents_root:
  "isolateComponents env seeders opts sc w = Inr (n, w') \<Longrightarrow>
     capsulesRootDir n = getCapsulesRootDir env (baseDirOrHostPath env opts)"
  by (auto simp: isolateComponents_def bindE_def Let_def split: sum.splits if_splits prod.splits)

text \<open>
  Claim C7. The isolation root joins the capsules base directory with the hash of the base
  directory, and it is the root of the network of every run on that base directory,
  whatever the seeders, the other options and the state of the disk: two runs on the same
  base directory have the same root.
\<close>

theorem capsules_root_dir_deterministic:
  "getCapsulesRootDir env base = path_join (path_join (CACHE_ROOT env) [''capsules'']) [hash env base]
   \<and> (isolateComponents env seeders1 opts1 scope1 w1 = Inr (n1, w1') \<longrightarrow>
       isolateComponents env seeders2 opts2 scope2 w2 = Inr (n2, w2') \<longrightarrow>
       baseDirOrHostPath env opts1 = base \<longrightarrow>
       baseDirOrHostPath env opts2 = base \<longrightarrow>
       capsulesRootDir n1 = getCapsulesRootDir env base \<and> capsulesRootDir n2 = capsulesRootDir n1)"
  by (auto simp: getCapsulesRootDir_def CAPSULES_BASE_DIR_def dest!: isolateComponents_root)

theorem capsules_root_dir_deterministic_witness:
  "baseDirOrHostPath mockEnv noOptions = [''ws'']
   \<and> baseDirOrHostPath mockEnv otherOptions = [''ws'']
   \<and> (case isolateComponents mockEnv [idA] noOptions None (worldOf emptyDisk) of
        Inl e \<Rightarrow> False
      | Inr (n1, w1) \<Rightarrow>
          (case isolateComponents mockEnv [idA, idB] otherOptions None (worldOf isolatedDisk) of
             Inl e \<Rightarrow> False
           | Inr (n2, w2) \<Rightarrow>
               capsulesRootDir n1 = [''cache'', ''capsules'', ''ws'']
               \<and> capsulesRootDir n2 = capsulesRootDir n1))"
proof -
  have b1: "baseDirOrHostPath mockEnv noOptions = [''ws'']" by code_simp
  have b2: "baseDirOrHostPath mockEnv otherOptions = [''ws'']" by code_simp
  have "case isolateComponents mockEnv [idA] noOptions None (worldOf emptyDisk) of
          Inl e \<Rightarrow> False | Inr r \<Rightarrow> True"
    by code_simp
  then obtain n1 w1 where
    r1: "isolateComponents mockEnv [idA] noOptions None (worldOf emptyDisk) = Inr (n1, w1)"
    by (auto split: sum.splits)
  have "case isolateComponents mockEnv [idA, idB] otherOptions None (worldOf isolatedDisk) of
          Inl e \<Rightarrow> False | Inr r \<Rightarrow> True"
    by code_simp
  then obtain n2 w2 where
    r2: "isolateComponents mockEnv [idA, idB] otherOptions None (worldOf isolatedDisk) = Inr (n2, w2)"
    by (auto split: sum.splits)
  have h: "path_join (path_join (CACHE_ROOT mockEnv) [''capsules'']) [hash mockEnv [''ws'']]
             = [''cache'', ''capsules'', ''ws'']"
    by code_simp
  from capsules_root_dir_deterministic
         [of mockEnv "[''ws'']" "[idA]" noOptions None "worldOf emptyDisk" n1 w1
             "[idA, idB]" otherOptions None "worldOf isolatedDisk" n2 w2]
       r1 r2 b1 b2 h
  show ?thesis by simp
qed

section \<open>Graph resolution\<close>

lemma compact_map_if: "compact (map (\<lambda>c. if P c then Some c else None) cs) = filter P cs"
  by (induction cs) simp_all

lemma mapE_existing:
  assumes "\<forall>c \<in> set cs. \<exists>b. host_hasId env (component_id c) = Inr b"
  shows "mapE (\<lambda>c. bindE (host_hasId env (component_id c))
                    (\<lambda>existing. Inr (if existing then Some c else None))) cs
         = Inr (map (\<lambda>c. if host_hasId env (component_id c) = Inr True then Some c else None) cs)"
proof (rule mapE_total)
  fix c assume "c \<in> set cs"
  with assms obtain b where "host_hasId env (component_id c) = Inr b" by blast
  then show "bindE (host_hasId env (component_id c)) (\<lambda>existing. Inr (if existing then Some c else None))
             = Inr (if host_hasId env (component_id c) = Inr True then Some c else None)"
    by (simp add: bindE_def)
qed

lemma createGraph_filter:
  assumes "getGraph env seeders = Inr graph"
    and "\<forall>n \<in> set (nodes (successorsSubgraph env graph (map toString seeders))).
           \<exists>b. host_hasId env (component_id (attr n)) = Inr b"
  shows "createGraph env seeders =
           Inr (filter (\<lambda>c. host_hasId env (component_id c) = Inr True)
                  (map attr (nodes (successorsSubgraph env graph (map toString seeders)))))"
proof -
  define cs where "cs = map attr (nodes (successorsSubgraph env graph (map toString seeders)))"
  from assms(2) have "\<forall>c \<in> set cs. \<exists>b. host_hasId env (component_id c) = Inr b"
    by (simp add: cs_def)
  from mapE_existing [OF this]
  have "bindE (mapE (\<lambda>c. bindE (host_hasId env (component_id c))
                            (\<lambda>existing. Inr (if existing then Some c else None))) cs)
          (\<lambda>existingComps. Inr (compact existingComps))
        = Inr (filter (\<lambda>c. host_hasId env (component_id c) = Inr True) cs)"
    by (simp only: bindE_def sum.case compact_map_if)
  with assms(1) show ?thesis
    by (simp add: createGraph_def Let_def cs_def bindE_def)
qed

lemma bindE_eq_Inr: "bindE m f = Inr y \<longleftrightarrow> (\<exists>x. m = Inr x \<and> f x = Inr y)"
  by (cases m) (simp_all add: bindE_def)

lemma createFromComponent_component:
  "createFromComponent env c base opts w = Inr (cap, w') \<Longrightarrow> component cap = c"
  by (auto simp: createFromComponent_def Let_def bindE_def split: sum.splits)

lemma mapStateE_createFromComponent_components:
  "mapStateE (\<lambda>c. createFromComponent env c base opts) cs w = Inr (caps, w')
    \<Longrightarrow> map component caps = cs"
proof (induction cs arbitrary: w caps)
  case Nil
  then show ?case by simp
next
  case (Cons c cs)
  then show ?case
    by (auto simp: bindE_def split: sum.splits prod.splits dest: createFromComponent_component)
qed

lemma createCapsulesFromComponents_components:
  "createCapsulesFromComponents env cs base opts w = Inr (caps, w') \<Longrightarrow> map component caps = cs"
  unfolding createCapsulesFromComponents_def by (rule mapStateE_createFromComponent_components)

lemma filter_same_length: "length (filter P xs) = length xs \<Longrightarrow> filter P xs = xs"
  by (metis filter_id_conv length_filter_less less_irrefl)

lemma createCapsules_created:
  assumes "createCapsules env components opts sc w = Inr (cl, w')"
  shows "\<exists>base w1 w2. baseDir opts = Some base
           \<and> (if truthy (emptyRootDir opts)
                then \<exists>fs. emptyDir (getCapsulesRootDir env base) (files w) = Inr fs
                          \<and> w1 = w\<lparr>files := fs\<rparr>
                else w1 = w)
           \<and> createCapsulesFromComponents env components (getCapsulesRootDir env base) opts w1
               = Inr (cl, w2)
           \<and> (truthy (getExistingAsIs opts) \<longrightarrow> w' = w2)"
proof (cases "baseDir opts")
  case None
  with assms show ?thesis by (simp add: createCapsules_def)
next
  case (Some base)
  with assms show ?thesis
    by (auto simp: createCapsules_def Let_def bindE_eq_Inr fromArray_def filter_same_length
             split: prod.splits if_splits)
qed

lemma createCapsules_components:
  "createCapsules env components opts sc w = Inr (cl, w') \<Longrightarrow> map component cl = components"
  by (auto dest!: createCapsules_created createCapsulesFromComponents_components)


text \<open>
  Claim C3. When the graph builder answers and every existence check of the host returns,
  graph resolution returns the nodes of the successor subgraph that the host recognises,
  in the order of the subgraph; and the capsules of a run that does not isolate the
  seeders only are the capsules of exactly these components, in that order. With the
  seeder \<open>a\<close>, a graph of \<open>a\<close> and \<open>b\<close> and a host without \<open>b\<close>, the capsules are
  the capsule of \<open>a\<close>.
\<close>

theorem graph_resolution:
  assumes "getGraph env seeders = Inr graph"
    and "\<forall>n \<in> set (nodes (successorsSubgraph env graph (map toString seeders))).
           \<exists>b. host_hasId env (component_id (attr n)) = Inr b"
  shows "createGraph env seeders =
           Inr (filter (\<lambda>c. host_hasId env (component_id c) = Inr True)
                  (map attr (nodes (successorsSubgraph env graph (map toString seeders)))))
         \<and> (\<not> truthy (seedersOnly opts) \<longrightarrow>
              isolateComponents env seeders opts sc w = Inr (net, w') \<longrightarrow>
              map component (network_capsules net) =
                filter (\<lambda>c. host_hasId env (component_id c) = Inr True)
                  (map attr (nodes (successorsSubgraph env graph (map toString seeders)))))"
proof -
  note g = createGraph_filter [OF assms]
  show ?thesis
  proof (intro conjI impI)
    show "createGraph env seeders =
           Inr (filter (\<lambda>c. host_hasId env (component_id c) = Inr True)
                  (map attr (nodes (successorsSubgraph env graph (map toString seeders)))))"
      by (rule g)
  next
    assume "\<not> truthy (seedersOnly opts)"
      and "isolateComponents env seeders opts sc w = Inr (net, w')"
    then show "map component (network_capsules net) =
                filter (\<lambda>c. host_hasId env (component_id c) = Inr True)
                  (map attr (nodes (successorsSubgraph env graph (map toString seeders))))"
      by (auto simp: isolateComponents_def g bindE_eq_Inr Let_def
               split: prod.splits dest: createCapsules_components)
  qed
qed

theorem graph_resolution_witness:
  "getGraph mockEnv [idA]
     = Inr \<lparr>nodes = [\<lparr>node_id = ''a@1.0.0'', attr = compA\<rparr>, \<lparr>node_id = ''b@1.0.0'', attr = compB\<rparr>],
            edges = [(''a@1.0.0'', ''b@1.0.0'')]\<rparr>
   \<and> host_hasId mockEnv idA = Inr True
   \<and> host_hasId mockEnv idB = Inr False
   \<and> createGraph mockEnv [idA] = Inr [compA]
   \<and> \<not> truthy (seedersOnly noOptions)
   \<and> (case isolateComponents mockEnv [idA] noOptions None (worldOf emptyDisk) of
        Inl e \<Rightarrow> False
      | Inr (net, w') \<Rightarrow> map component (network_capsules net) = [compA])"
proof -
  let ?g = "\<lparr>nodes = [\<lparr>node_id = ''a@1.0.0'', attr = compA\<rparr>, \<lparr>node_id = ''b@1.0.0'', attr = compB\<rparr>],
            edges = [(''a@1.0.0'', ''b@1.0.0'')]\<rparr>"
  have gg: "getGraph mockEnv [idA] = Inr ?g" by code_simp
  have sub: "\<And>g ids. successorsSubgraph mockEnv g ids = g" by (simp add: mockEnv_def)
  have ha: "host_hasId mockEnv idA = Inr True" by code_simp
  have hb: "host_hasId mockEnv idB = Inr False" by code_simp
  have ca: "component_id compA = idA" by (simp add: compA_def)
  have cb: "component_id compB = idB" by (simp add: compB_def)
  have t: "\<not> truthy (seedersOnly noOptions)" by code_simp
  have "case isolateComponents mockEnv [idA] noOptions None (worldOf emptyDisk) of
          Inl e \<Rightarrow> False | Inr r \<Rightarrow> True"
    by code_simp
  then obtain net w' where
    r: "isolateComponents mockEnv [idA] noOptions None (worldOf emptyDisk) = Inr (net, w')"
    by (auto split: sum.splits)
  have all: "\<forall>n \<in> set (nodes (successorsSubgraph mockEnv ?g (map toString [idA]))).
           \<exists>b. host_hasId mockEnv (component_id (attr n)) = Inr b"
    by (auto simp: sub ha hb ca cb)
  from graph_resolution [OF gg all, of noOptions None "worldOf emptyDisk" net w'] r t
  show ?thesis
    by (simp add: gg sub ha hb ca cb)
qed

section \<open>Existing capsules as they are\<close>

lemma ensureDir_files:
  assumes "ensureDir d fs = Inr fs'"
  shows "fs' p = Some (File x) \<longleftrightarrow> fs p = Some (File x)"
proof -
  from assms have nofile: "\<forall>q \<in> set (prefixes d). \<not> is_file (fs q)"
    and fs': "fs' = (\<lambda>p. if prefix p d then Some Dir else fs p)"
    by (auto simp: ensureDir_def split: if_splits)
  show ?thesis
  proof (cases "prefix p d")
    case True
    then have "p \<in> set (prefixes d)" by (simp add: in_set_prefixes)
    with nofile have "\<not> is_file (fs p)" by blast
    then have "fs p \<noteq> Some (File x)" by auto
    with True fs' show ?thesis by simp
  next
    case False
    with fs' show ?thesis by simp
  qed
qed

lemma emptyDir_files:
  assumes "emptyDir d fs = Inr fs'"
  shows "fs' p = Some (File x) \<longleftrightarrow> fs p = Some (File x) \<and> \<not> strict_prefix d p"
  using ensureDir_files [OF assms [unfolded emptyDir_def], of p x] by simp

lemma createFromComponent_frame:
  assumes "createFromComponent env c base opts w = Inr (cap, w')"
  shows "calls w' = calls w \<and> (\<forall>p x. files w' p = Some (File x) \<longleftrightarrow> files w p = Some (File x))"
proof -
  from assms obtain d w1 fs where e: "ensureDir d (files w1) = Inr fs"
    and w': "w' = w1\<lparr>files := fs\<rparr>"
    and w1: "calls w1 = calls w" "files w1 = files w"
    by (auto simp: createFromComponent_def Let_def bindE_eq_Inr split: if_splits)
  from ensureDir_files [OF e] w' w1 show ?thesis by simp
qed

lemma mapStateE_createFromComponent_frame:
  "mapStateE (\<lambda>c. createFromComponent env c base opts) cs w = Inr (caps, w')
    \<Longrightarrow> calls w' = calls w \<and> (\<forall>p x. files w' p = Some (File x) \<longleftrightarrow> files w p = Some (File x))"
proof (induction cs arbitrary: w caps)
  case Nil
  then show ?case by simp
next
  case (Cons c cs)
  from Cons.prems obtain cap w1 caps' where
    a: "createFromComponent env c base opts w = Inr (cap, w1)"
    and b: "mapStateE (\<lambda>c. createFromComponent env c base opts) cs w1 = Inr (caps', w')"
    by (auto simp: bindE_eq_Inr split: prod.splits)
  from createFromComponent_frame [OF a] Cons.IH [OF b] show ?case by simp
qed

lemma createCapsulesFromComponents_frame:
  "createCapsulesFromComponents env cs base opts w = Inr (caps, w')
    \<Longrightarrow> calls w' = calls w \<and> (\<forall>p x. files w' p = Some (File x) \<longleftrightarrow> files w p = Some (File x))"
  unfolding createCapsulesFromComponents_def by (rule mapStateE_createFromComponent_frame)

text \<open>
  Claim C8, amended. A run with \<open>getExistingAsIs\<close> returns the capsules right after their
  directories are created: it calls no collaborator, and a file is on the disk afterwards,
  with the content it had, exactly when it was there before and was not deleted by the
  emptying of the isolation root that \<open>emptyRootDir\<close> asks for. As stated the claim fails:
  with both options set the manifests and sources below the root are gone.
\<close>

theorem existing_capsules_as_is:
  assumes "createCapsules env components opts legacyScope w = Inr (capsuleList, w')"
    and "truthy (getExistingAsIs opts)"
  shows "calls w' = calls w
         \<and> map component capsuleList = components
         \<and> (\<forall>p x. files w' p = Some (File x) \<longleftrightarrow>
                files w p = Some (File x)
                \<and> \<not> (truthy (emptyRootDir opts)
                      \<and> (\<exists>base. baseDir opts = Some base
                                 \<and> strict_prefix (getCapsulesRootDir env base) p)))"
proof -
  from createCapsules_created [OF assms(1)] assms(2) obtain base w1 where
    b: "baseDir opts = Some base"
    and e: "if truthy (emptyRootDir opts)
            then \<exists>fs. emptyDir (getCapsulesRootDir env base) (files w) = Inr fs
                      \<and> w1 = w\<lparr>files := fs\<rparr>
            else w1 = w"
    and c: "createCapsulesFromComponents env components (getCapsulesRootDir env base) opts w1
              = Inr (capsuleList, w')"
    by auto
  note f = createCapsulesFromComponents_frame [OF c]
  have w1: "calls w1 = calls w
            \<and> (\<forall>p x. files w1 p = Some (File x) \<longleftrightarrow>
                  files w p = Some (File x)
                  \<and> \<not> (truthy (emptyRootDir opts) \<and> strict_prefix (getCapsulesRootDir env base) p))"
  proof (cases "truthy (emptyRootDir opts)")
    case True
    with e obtain fs where "emptyDir (getCapsulesRootDir env base) (files w) = Inr fs"
      and "w1 = w\<lparr>files := fs\<rparr>" by auto
    with True show ?thesis by (simp add: emptyDir_files)
  next
    case False
    with e show ?thesis by simp
  qed
  from f w1 have "calls w' = calls w" by simp
  moreover have "map component capsuleList = components"
    by (rule createCapsules_components [OF assms(1)])
  moreover have "\<forall>p x. files w' p = Some (File x) \<longleftrightarrow>
                files w p = Some (File x)
                \<and> \<not> (truthy (emptyRootDir opts)
                      \<and> (\<exists>base. baseDir opts = Some base
                                 \<and> strict_prefix (getCapsulesRootDir env base) p))"
  proof (intro allI)
    fix p x
    from f have "files w' p = Some (File x) \<longleftrightarrow> files w1 p = Some (File x)" by blast
    also from w1 have "\<dots> \<longleftrightarrow> files w p = Some (File x)
                  \<and> \<not> (truthy (emptyRootDir opts) \<and> strict_prefix (getCapsulesRootDir env base) p)"
      by blast
    finally show "files w' p = Some (File x) \<longleftrightarrow>
                files w p = Some (File x)
                \<and> \<not> (truthy (emptyRootDir opts)
                      \<and> (\<exists>base. baseDir opts = Some base
                                 \<and> strict_prefix (getCapsulesRootDir env base) p))"
      using b by simp
  qed
  ultimately show ?thesis by blast
qed

theorem existing_capsules_as_is_witness:
  "truthy (getExistingAsIs asIs)
   \<and> (case createCapsules mockEnv [compA, compB] asIs None (worldOf brokenDisk) of
        Inl e \<Rightarrow> False
      | Inr (capsuleList, w') \<Rightarrow>
          calls w' = []
          \<and> capsuleList = [capA, capB]
          \<and> files w' (capsule_path capB @ [''package.json'']) = Some (File (Text ''{ name: ''))
          \<and> files w' (capsule_path capA @ [''package.json'']) = None)"
proof -
  have t: "truthy (getExistingAsIs asIs)" by code_simp
  have ok: "case createCapsules mockEnv [compA, compB] asIs None (worldOf brokenDisk) of
          Inl e \<Rightarrow> False
        | Inr (capsuleList, w') \<Rightarrow>
            capsuleList = [capA, capB]
            \<and> files w' (capsule_path capA @ [''package.json'']) = None"
    by code_simp
  then obtain capsuleList w' where
    r: "createCapsules mockEnv [compA, compB] asIs None (worldOf brokenDisk) = Inr (capsuleList, w')"
    by (auto split: sum.splits)
  have e: "\<not> truthy (emptyRootDir asIs)" by code_simp
  have b: "files (worldOf brokenDisk) (capsule_path capB @ [''package.json''])
             = Some (File (Text ''{ name: ''))"
    by code_simp
  have c0: "calls (worldOf brokenDisk) = []" by (simp add: worldOf_def)
  from existing_capsules_as_is [OF r t] e b c0
  have "calls w' = []"
    and "files w' (capsule_path capB @ [''package.json'']) = Some (File (Text ''{ name: ''))"
    by simp_all
  with ok r t show ?thesis by simp
qed

theorem existing_capsules_as_is_counterexample:
  "truthy (getExistingAsIs asIsAfterWipe)
   \<and> readFile (files (worldOf isolatedDisk)) (capsule_path capA @ [''package.json''])
       = Inr (Json (JObj finalManifestA))
   \<and> readFile (files (worldOf isolatedDisk)) (capsule_path capA @ [''index.js''])
       = Inr (Text ''source'')
   \<and> (case createCapsules mockEnv [compA, compB] asIsAfterWipe None (worldOf isolatedDisk) of
        Inl e \<Rightarrow> False
      | Inr (capsuleList, w') \<Rightarrow>
          readFile (files w') (capsule_path capA @ [''package.json'']) = Inl (FsError ''ENOENT'')
          \<and> readFile (files w') (capsule_path capA @ [''index.js'']) = Inl (FsError ''ENOENT''))"
  by code_simp

section \<open>The final manifests\<close>

lemma setCurrentOfFound_Some:
  "setCurrentOfFound P m ds = Some ds' \<Longrightarrow>
     map capsule ds' = map capsule ds
     \<and> (\<forall>d' \<in> set ds'. d' \<in> set ds
            \<or> (\<exists>d \<in> set ds. P d \<and> d' = d\<lparr>currentPackageJson := Some m\<rparr>))"
proof (induction ds arbitrary: ds')
  case Nil
  then show ?case by simp
next
  case (Cons d ds)
  show ?case
  proof (cases "P d")
    case True
    with Cons.prems show ?thesis by auto
  next
    case False
    with Cons.prems obtain ds1 where s: "setCurrentOfFound P m ds = Some ds1" and e: "ds' = d # ds1"
      by auto
    from Cons.IH [OF s] e show ?thesis by auto
  qed
qed

lemma updateStep:
  assumes "forEachE (\<lambda>c ds.
        bindE (getCurrentPackageJson env c fs) (\<lambda>packageJson.
          case setCurrentOfFound
                 (\<lambda>d. isEqual (component_id (component (capsule d))) (component_id (component c)))
                 packageJson ds of
            None \<Rightarrow> Inl (Error (''updateWithCurrentPackageJsonData unable to find ''
                                 @ toString (component_id (component c))))
          | Some ds' \<Rightarrow> Inr ds')) cs ds = Inr ds'"
    and "\<forall>d \<in> set ds. computedFor env fs all d"
    and "set cs \<subseteq> set all"
  shows "map capsule ds' = map capsule ds \<and> (\<forall>d \<in> set ds'. computedFor env fs all d)"
  using assms
proof (induction cs arbitrary: ds)
  case Nil
  then show ?case by simp
next
  case (Cons c cs)
  from Cons.prems(1) obtain m ds1 where
    g: "getCurrentPackageJson env c fs = Inr m"
    and s: "setCurrentOfFound
              (\<lambda>d. isEqual (component_id (component (capsule d))) (component_id (component c)))
              m ds = Some ds1"
    and r: "forEachE (\<lambda>c ds.
        bindE (getCurrentPackageJson env c fs) (\<lambda>packageJson.
          case setCurrentOfFound
                 (\<lambda>d. isEqual (component_id (component (capsule d))) (component_id (component c)))
                 packageJson ds of
            None \<Rightarrow> Inl (Error (''updateWithCurrentPackageJsonData unable to find ''
                                 @ toString (component_id (component c))))
          | Some ds' \<Rightarrow> Inr ds')) cs ds1 = Inr ds'"
    by (auto simp: bindE_eq_Inr split: option.splits)
  from setCurrentOfFound_Some [OF s]
  have m1: "map capsule ds1 = map capsule ds"
    and e1: "\<forall>d' \<in> set ds1. d' \<in> set ds
            \<or> (\<exists>d \<in> set ds. isEqual (component_id (component (capsule d))) (component_id (component c))
                  \<and> d' = d\<lparr>currentPackageJson := Some m\<rparr>)"
    by blast+
  from Cons.prems(3) have cin: "c \<in> set all" by simp
  have "\<forall>d \<in> set ds1. computedFor env fs all d"
  proof
    fix d' assume "d' \<in> set ds1"
    with e1 consider "d' \<in> set ds"
      | d where "d \<in> set ds" "isEqual (component_id (component (capsule d))) (component_id (component c))"
          "d' = d\<lparr>currentPackageJson := Some m\<rparr>"
      by blast
    then show "computedFor env fs all d'"
    proof cases
      case 1
      with Cons.prems(2) show ?thesis by blast
    next
      case 2
      with g cin show ?thesis by (auto simp: computedFor_def isEqual_def)
    qed
  qed
  moreover from Cons.prems(3) have "set cs \<subseteq> set all" by simp
  ultimately have "map capsule ds' = map capsule ds1 \<and> (\<forall>d \<in> set ds'. computedFor env fs all d)"
    using Cons.IH [OF r] by blast
  with m1 show ?case by simp
qed

lemma updateWithCurrentPackageJsonData_Inr:
  assumes "updateWithCurrentPackageJsonData env ds cs fs = Inr ds'"
    and "\<forall>d \<in> set ds. currentPackageJson d = None"
  shows "map capsule ds' = map capsule ds \<and> (\<forall>d \<in> set ds'. computedFor env fs cs d)"
proof -
  from assms(2) have "\<forall>d \<in> set ds. computedFor env fs cs d" by (simp add: computedFor_def)
  with updateStep [OF assms(1) [unfolded updateWithCurrentPackageJsonData_def]] show ?thesis by simp
qed

lemma writePhase_data:
  assumes "writePhase env components opts sc w = Inr (ds, w3)"
  shows "\<forall>d \<in> set ds. computedFor env (files w3) (map capsule ds) d"
proof (cases "baseDir opts")
  case None
  with assms show ?thesis by (simp add: writePhase_def)
next
  case (Some base)
  with assms obtain caps fs2 ds0 where
    p: "getCapsulesPreviousPackageJson caps fs2 = Inr ds0"
    and u: "updateWithCurrentPackageJsonData env ds0 caps (files w3) = Inr ds"
    by (auto simp: writePhase_def Let_def bindE_eq_Inr split: prod.splits)
  from p have d0: "\<forall>d \<in> set ds0. currentPackageJson d = None" and c0: "map capsule ds0 = caps"
    by (auto simp: getCapsulesPreviousPackageJson_eq comp_def)
  from updateWithCurrentPackageJsonData_Inr [OF u d0] c0 show ?thesis by simp
qed

lemma writeCurrentPackageJson_Inr:
  "writeCurrentPackageJson d fs = Inr fs' \<Longrightarrow>
     \<exists>m. currentPackageJson d = Some m
       \<and> fs' = fs(path_join (capsule_path (capsule d)) [PACKAGE_JSON] \<mapsto> File (Json (JObj m)))"
  by (auto simp: writeCurrentPackageJson_def writeFileSync_def JSON_stringify_def
           split: option.splits node.splits)

lemma forEachE_write_other:
  "forEachE writeCurrentPackageJson ds fs = Inr fs' \<Longrightarrow>
     p \<notin> set (map (\<lambda>d. path_join (capsule_path (capsule d)) [PACKAGE_JSON]) ds) \<Longrightarrow>
     fs' p = fs p"
proof (induction ds arbitrary: fs)
  case Nil
  then show ?case by simp
next
  case (Cons d ds)
  from Cons.prems(1) obtain fs1 where a: "writeCurrentPackageJson d fs = Inr fs1"
    and b: "forEachE writeCurrentPackageJson ds fs1 = Inr fs'"
    by (auto simp: bindE_eq_Inr)
  from writeCurrentPackageJson_Inr [OF a] Cons.prems(2) have "fs1 p = fs p" by auto
  moreover from Cons.IH [OF b] Cons.prems(2) have "fs' p = fs1 p" by simp
  ultimately show ?case by simp
qed

lemma forEachE_write_current:
  "forEachE writeCurrentPackageJson ds fs = Inr fs' \<Longrightarrow>
     distinct (map (\<lambda>d. capsule_path (capsule d)) ds) \<Longrightarrow>
     d \<in> set ds \<Longrightarrow>
     \<exists>m. currentPackageJson d = Some m
       \<and> fs' (path_join (capsule_path (capsule d)) [PACKAGE_JSON]) = Some (File (Json (JObj m)))"
proof (induction ds arbitrary: fs)
  case Nil
  then show ?case by simp
next
  case (Cons d0 ds)
  from Cons.prems(1) obtain fs1 where a: "writeCurrentPackageJson d0 fs = Inr fs1"
    and b: "forEachE writeCurrentPackageJson ds fs1 = Inr fs'"
    by (auto simp: bindE_eq_Inr)
  show ?case
  proof (cases "d = d0")
    case True
    from Cons.prems(2)
    have "path_join (capsule_path (capsule d0)) [PACKAGE_JSON]
            \<notin> set (map (\<lambda>d. path_join (capsule_path (capsule d)) [PACKAGE_JSON]) ds)"
      by (auto simp: path_join_def)
    from forEachE_write_other [OF b this] writeCurrentPackageJson_Inr [OF a] True
    show ?thesis by auto
  next
    case False
    with Cons.prems have "d \<in> set ds" and "distinct (map (\<lambda>d. capsule_path (capsule d)) ds)"
      by auto
    with Cons.IH [OF b] show ?thesis by blast
  qed
qed

lemma createCapsules_full:
  assumes "createCapsules env components opts sc w = Inr (cl, w')"
    and "\<not> cutShort env components opts w"
  shows "\<exists>ds w3 fs4. writePhase env components opts sc w = Inr (ds, w3)
           \<and> map capsule ds = cl
           \<and> forEachE writeCurrentPackageJson ds fs4 = Inr (files w')"
proof (cases "baseDir opts")
  case None
  with assms show ?thesis by (simp add: createCapsules_def)
next
  case (Some base)
  with assms(1) obtain w1 caps w2 where
    e: "(if truthy (emptyRootDir opts)
         then bindE (emptyDir (getCapsulesRootDir env base) (files w)) (\<lambda>fs. Inr (w\<lparr>files := fs\<rparr>))
         else Inr w) = Inr w1"
    and c: "createCapsulesFromComponents env components (getCapsulesRootDir env base) opts w1
              = Inr (caps, w2)"
    by (auto simp: createCapsules_def Let_def bindE_eq_Inr split: prod.splits)
  from assms(2) Some e c have ns: "\<not> truthy (getExistingAsIs opts)"
    "\<not> (truthy (skipIfExists opts)
         \<and> length (filter (\<lambda>c. existsSync (files w2)
                                    (path_join (capsule_path c) [''package.json'']))
                      (fromArray caps))
             = length (fromArray caps))"
    by (auto simp: cutShort_def Let_def bindE_def)
  with Some assms(1) e c obtain ds0 w3 ds w4 fs where
    p: "getCapsulesPreviousPackageJson caps (files w2) = Inr ds0"
    and wr: "writeComponentsInCapsules env components (fromArray caps) sc w2 = Inr w3"
    and u: "updateWithCurrentPackageJsonData env ds0 caps (files w3) = Inr ds"
    and f: "forEachE writeCurrentPackageJson ds (files w4) = Inr fs"
    and cl: "cl = caps" and w': "w' = w4\<lparr>files := fs\<rparr>"
    by (auto simp: createCapsules_def Let_def bindE_eq_Inr fromArray_def split: prod.splits)
  from Some e c p wr u have "writePhase env components opts sc w = Inr (ds, w3)"
    by (simp add: writePhase_def Let_def bindE_def)
  moreover from p have d0: "\<forall>d \<in> set ds0. currentPackageJson d = None" and c0: "map capsule ds0 = caps"
    by (auto simp: getCapsulesPreviousPackageJson_eq comp_def)
  from updateWithCurrentPackageJsonData_Inr [OF u d0] c0 cl have "map capsule ds = cl"
    by simp
  moreover from f w' have "forEachE writeCurrentPackageJson ds (files w4) = Inr (files w')" by simp
  ultimately show ?thesis by blast
qed

text \<open>
  Claim C1, amended. At the end of a run that is not cut short, and whose capsules have
  distinct directories, the manifest on disk of every capsule is the current manifest of
  its entry of the manifest data, the one computed after the write phase from the
  component's own dependencies, whether the manifest diff of the entry is \<open>changed\<close> or
  not. As stated the claim fails: the manifest of a capsule whose dependency sections are
  unchanged is rewritten too, and is not the manifest that the write phase produced.
\<close>

theorem final_manifests_rewritten:
  assumes "createCapsules env components opts legacyScope w = Inr (capsuleList, w')"
    and "\<not> cutShort env components opts w"
    and "distinct (map capsule_path capsuleList)"
  shows "\<exists>ds w3. writePhase env components opts legacyScope w = Inr (ds, w3)
           \<and> map capsule ds = capsuleList
           \<and> (\<forall>d \<in> set ds. \<exists>m c.
                 currentPackageJson d = Some m
                 \<and> c \<in> set capsuleList
                 \<and> component_id (component c) = component_id (component (capsule d))
                 \<and> getCurrentPackageJson env c (files w3) = Inr m
                 \<and> readFile (files w') (path_join (capsule_path (capsule d)) [PACKAGE_JSON])
                     = Inr (JSON_stringify (JObj m)))"
proof -
  from createCapsules_full [OF assms(1,2)] obtain ds w3 fs4 where
    wp: "writePhase env components opts legacyScope w = Inr (ds, w3)"
    and mc: "map capsule ds = capsuleList"
    and fe: "forEachE writeCurrentPackageJson ds fs4 = Inr (files w')"
    by blast
  from mc assms(3) have dist: "distinct (map (\<lambda>d. capsule_path (capsule d)) ds)"
    by (auto simp: comp_def)
  have "\<forall>d \<in> set ds. \<exists>m c.
                 currentPackageJson d = Some m
                 \<and> c \<in> set capsuleList
                 \<and> component_id (component c) = component_id (component (capsule d))
                 \<and> getCurrentPackageJson env c (files w3) = Inr m
                 \<and> readFile (files w') (path_join (capsule_path (capsule d)) [PACKAGE_JSON])
                     = Inr (JSON_stringify (JObj m))"
  proof
    fix d assume d: "d \<in> set ds"
    from forEachE_write_current [OF fe dist d] obtain m where
      cur: "currentPackageJson d = Some m"
      and at: "files w' (path_join (capsule_path (capsule d)) [PACKAGE_JSON])
                 = Some (File (Json (JObj m)))"
      by blast
    from writePhase_data [OF wp] d have "computedFor env (files w3) (map capsule ds) d" by blast
    with cur mc obtain c where "c \<in> set capsuleList"
      and "component_id (component c) = component_id (component (capsule d))"
      and "getCurrentPackageJson env c (files w3) = Inr m"
      by (auto simp: computedFor_def)
    moreover from at have "readFile (files w') (path_join (capsule_path (capsule d)) [PACKAGE_JSON])
                     = Inr (JSON_stringify (JObj m))"
      by (simp add: readFile_def JSON_stringify_def)
    ultimately show "\<exists>m c.
                 currentPackageJson d = Some m
                 \<and> c \<in> set capsuleList
                 \<and> component_id (component c) = component_id (component (capsule d))
                 \<and> getCurrentPackageJson env c (files w3) = Inr m
                 \<and> readFile (files w') (path_join (capsule_path (capsule d)) [PACKAGE_JSON])
                     = Inr (JSON_stringify (JObj m))"
      using cur by blast
  qed
  with wp mc show ?thesis by blast
qed

theorem final_manifests_rewritten_counterexample:
  "\<not> cutShort mockEnv [compA, compB] fullRun (worldOf isolatedDisk)
   \<and> (case writePhase mockEnv [compA, compB] fullRun None (worldOf isolatedDisk) of
      Inl e \<Rightarrow> False
    | Inr (ds, w3) \<Rightarrow>
        map capsule ds = [capA, capB]
        \<and> map (wereDependenciesInPackageJsonChanged mockEnv) ds = [Inr False, Inr False]
        \<and> readFile (files w3) (path_join (capsule_path capA) [PACKAGE_JSON])
            = Inr (Json (JObj (writtenManifest idA))))
   \<and> (case createCapsules mockEnv [compA, compB] fullRun None (worldOf isolatedDisk) of
        Inl e \<Rightarrow> False
      | Inr (capsuleList, w') \<Rightarrow>
          readFile (files w') (path_join (capsule_path capA) [PACKAGE_JSON])
            = Inr (Json (JObj finalManifestA)))
   \<and> writtenManifest idA \<noteq> finalManifestA"
  by code_simp

theorem final_manifests_rewritten_witness:
  "\<not> cutShort mockEnv [compA, compB] fullRun (worldOf isolatedDisk)
   \<and> (case createCapsules mockEnv [compA, compB] fullRun None (worldOf isolatedDisk) of
        Inl e \<Rightarrow> False
      | Inr (capsuleList, w') \<Rightarrow>
          capsuleList = [capA, capB]
          \<and> distinct (map capsule_path capsuleList)
          \<and> readFile (files w') (path_join (capsule_path capA) [PACKAGE_JSON])
              = Inr (JSON_stringify (JObj finalManifestA))
          \<and> readFile (files w') (path_join (capsule_path capB) [PACKAGE_JSON])
              = Inr (JSON_stringify (JObj finalManifestB)))"
proof -
  have g: "\<not> cutShort mockEnv [compA, compB] fullRun (worldOf isolatedDisk)" by code_simp
  have "case createCapsules mockEnv [compA, compB] fullRun None (worldOf isolatedDisk) of
          Inl e \<Rightarrow> False
        | Inr (capsuleList, w') \<Rightarrow> capsuleList = [capA, capB]"
    by code_simp
  then obtain w' where
    r: "createCapsules mockEnv [compA, compB] fullRun None (worldOf isolatedDisk) = Inr ([capA, capB], w')"
    by (auto split: sum.splits)
  have dist: "distinct (map capsule_path [capA, capB])" by code_simp
  have "case writePhase mockEnv [compA, compB] fullRun None (worldOf isolatedDisk) of
          Inl e \<Rightarrow> False
        | Inr (ds, w3) \<Rightarrow>
            map capsule ds = [capA, capB]
            \<and> map currentPackageJson ds = [Some finalManifestA, Some finalManifestB]"
    by code_simp
  then obtain ds0 w30 where
    wp0: "writePhase mockEnv [compA, compB] fullRun None (worldOf isolatedDisk) = Inr (ds0, w30)"
    and c0: "map capsule ds0 = [capA, capB]"
    and m0: "map currentPackageJson ds0 = [Some finalManifestA, Some finalManifestB]"
    by (auto split: sum.splits)
  from c0 m0 obtain dA dB where ds0: "ds0 = [dA, dB]"
    and dA: "capsule dA = capA" "currentPackageJson dA = Some finalManifestA"
    and dB: "capsule dB = capB" "currentPackageJson dB = Some finalManifestB"
    by (auto simp: map_eq_Cons_conv)
  from final_manifests_rewritten [OF r g dist] wp0
  have all: "\<forall>d \<in> set ds0. \<exists>m.
                 currentPackageJson d = Some m
                 \<and> readFile (files w') (path_join (capsule_path (capsule d)) [PACKAGE_JSON])
                     = Inr (JSON_stringify (JObj m))"
    by fastforce
  from all ds0 dA have a: "readFile (files w') (path_join (capsule_path capA) [PACKAGE_JSON])
              = Inr (JSON_stringify (JObj finalManifestA))"
    by auto
  from all ds0 dB have b: "readFile (files w') (path_join (capsule_path capB) [PACKAGE_JSON])
              = Inr (JSON_stringify (JObj finalManifestB))"
    by auto
  from g r dist a b show ?thesis by simp
qed

section \<open>The linking pass\<close>

lemma filterE_Inr:
  "filterE f xs = Inr ys \<Longrightarrow> ys = filter (\<lambda>x. f x = Inr True) xs"
proof (induction xs arbitrary: ys)
  case Nil
  then show ?case by simp
next
  case (Cons x xs)
  then show ?case by (auto simp: bindE_eq_Inr)
qed

lemma getCapsulesWithModifiedPackageJson_Inr:
  "getCapsulesWithModifiedPackageJson env ds = Inr cs \<Longrightarrow>
     cs = map capsule (filter (\<lambda>d. wereDependenciesInPackageJsonChanged env d = Inr True) ds)"
  by (auto simp: getCapsulesWithModifiedPackageJson_def bindE_eq_Inr dest: filterE_Inr)

lemma changed_when_no_previous:
  "previousPackageJson d = JNull \<Longrightarrow> wereDependenciesInPackageJsonChanged env d = Inr True"
  by (simp add: wereDependenciesInPackageJsonChanged_def)

lemma symlink_correct:
  "links w linkPath = Some target \<Longrightarrow> files w linkPath = None \<Longrightarrow> symlink target linkPath w = Inr w"
  by (simp add: symlink_def map_upd_triv)

lemma symlink_calls: "symlink target linkPath w = Inr w' \<Longrightarrow> calls w' = calls w"
  by (auto simp: symlink_def split: if_splits)

lemma forEachE_symlink_calls:
  "forEachE (\<lambda>(linkPath, target). symlink target linkPath) ls w = Inr w' \<Longrightarrow> calls w' = calls w"
proof (induction ls arbitrary: w)
  case Nil
  then show ?case by simp
next
  case (Cons l ls)
  then show ?case
    by (auto simp: bindE_eq_Inr split: prod.splits dest!: symlink_calls)
qed

lemma establish_calls: "establish env c w = Inr w' \<Longrightarrow> calls w' = calls w @ [c]"
  by (auto simp: establish_def bindE_eq_Inr dest!: forEachE_symlink_calls)

lemma forEachE_symlink_correct:
  "\<forall>(linkPath, target) \<in> set ls. links w linkPath = Some target \<and> files w linkPath = None \<Longrightarrow>
     forEachE (\<lambda>(linkPath, target). symlink target linkPath) ls w = Inr w"
  by (induction ls) (auto simp: bindE_def symlink_correct)

lemma establish_correct:
  assumes "\<forall>(linkPath, target) \<in> set (linksOf env c).
             links w linkPath = Some target \<and> files w linkPath = None"
  shows "establish env c w = Inr (w\<lparr>calls := calls w @ [c]\<rparr>)"
  by (simp add: establish_def forEachE_symlink_correct [OF assms] bindE_def)

text \<open>
  Claim C2, amended. The linking pass hands every capsule of the capsule list to the linker
  of the dependency resolver and to the symlink step of the capsule root; the symlinks
  between capsules and the symlink to the tool's own runtime are made for exactly the
  capsules whose manifest diff is \<open>changed\<close>, among them every capsule without a previous
  manifest. Relinking a link that is already correct is a no-op, never an error: it
  returns the world as it is, and a pass all of whose links are already correct succeeds
  and changes nothing but the record of its calls. As stated the claim fails: a capsule
  whose dependency sections are unchanged is still part of the pass.
\<close>

theorem linking_pass:
  "(linkInCapsules env capsulesDir capsuleList capsulesWithPackagesData linkingOpts w = Inr w' \<longrightarrow>
      calls w' = calls w @
        [LinkerLink capsulesDir linkingOpts capsulesDir (getPeersOnlyPolicy env)
           (toComponentMap capsuleList) (linkingOpts\<lparr>legacyLink := Some False\<rparr>),
         SymlinkOnCapsuleRoot capsuleList capsulesDir,
         SymlinkDependenciesToCapsules
           (map capsule (filter (\<lambda>d. wereDependenciesInPackageJsonChanged env d = Inr True)
                           capsulesWithPackagesData))
           capsuleList,
         SymlinkBitBinToCapsules
           (map capsule (filter (\<lambda>d. wereDependenciesInPackageJsonChanged env d = Inr True)
                           capsulesWithPackagesData))]
      \<and> (\<forall>d \<in> set capsulesWithPackagesData. previousPackageJson d = JNull \<longrightarrow>
            d \<in> set (filter (\<lambda>d. wereDependenciesInPackageJsonChanged env d = Inr True)
                        capsulesWithPackagesData)))
   \<and> (links w linkPath = Some target \<longrightarrow> files w linkPath = None \<longrightarrow>
        symlink target linkPath w = Inr w)
   \<and> (getCapsulesWithModifiedPackageJson env capsulesWithPackagesData = Inr modified \<longrightarrow>
        (\<forall>c \<in> set [LinkerLink capsulesDir linkingOpts capsulesDir (getPeersOnlyPolicy env)
                       (toComponentMap capsuleList) (linkingOpts\<lparr>legacyLink := Some False\<rparr>),
                     SymlinkOnCapsuleRoot capsuleList capsulesDir,
                     SymlinkDependenciesToCapsules modified capsuleList,
                     SymlinkBitBinToCapsules modified].
           \<forall>(linkPath, target) \<in> set (linksOf env c).
             links w linkPath = Some target \<and> files w linkPath = None) \<longrightarrow>
        linkInCapsules env capsulesDir capsuleList capsulesWithPackagesData linkingOpts w
          = Inr (w\<lparr>calls := calls w @
                         [LinkerLink capsulesDir linkingOpts capsulesDir (getPeersOnlyPolicy env)
                            (toComponentMap capsuleList) (linkingOpts\<lparr>legacyLink := Some False\<rparr>),
                          SymlinkOnCapsuleRoot capsuleList capsulesDir,
                          SymlinkDependenciesToCapsules modified capsuleList,
                          SymlinkBitBinToCapsules modified]\<rparr>))"
proof (intro conjI impI)
  assume "linkInCapsules env capsulesDir capsuleList capsulesWithPackagesData linkingOpts w = Inr w'"
  then show "calls w' = calls w @
        [LinkerLink capsulesDir linkingOpts capsulesDir (getPeersOnlyPolicy env)
           (toComponentMap capsuleList) (linkingOpts\<lparr>legacyLink := Some False\<rparr>),
         SymlinkOnCapsuleRoot capsuleList capsulesDir,
         SymlinkDependenciesToCapsules
           (map capsule (filter (\<lambda>d. wereDependenciesInPackageJsonChanged env d = Inr True)
                           capsulesWithPackagesData))
           capsuleList,
         SymlinkBitBinToCapsules
           (map capsule (filter (\<lambda>d. wereDependenciesInPackageJsonChanged env d = Inr True)
                           capsulesWithPackagesData))]"
    by (auto simp: linkInCapsules_def Let_def bindE_eq_Inr linker_link_def symlinkOnCapsuleRoot_def
                   symlinkDependenciesToCapsules_def symlinkBitBinToCapsules_def
             dest!: establish_calls getCapsulesWithModifiedPackageJson_Inr)
next
  show "\<forall>d \<in> set capsulesWithPackagesData. previousPackageJson d = JNull \<longrightarrow>
            d \<in> set (filter (\<lambda>d. wereDependenciesInPackageJsonChanged env d = Inr True)
                        capsulesWithPackagesData)"
    by (simp add: changed_when_no_previous)
next
  assume "links w linkPath = Some target" and "files w linkPath = None"
  then show "symlink target linkPath w = Inr w" by (rule symlink_correct)
next
  let ?c0 = "LinkerLink capsulesDir linkingOpts capsulesDir (getPeersOnlyPolicy env)
               (toComponentMap capsuleList) (linkingOpts\<lparr>legacyLink := Some False\<rparr>)"
  let ?c1 = "SymlinkOnCapsuleRoot capsuleList capsulesDir"
  let ?c2 = "SymlinkDependenciesToCapsules modified capsuleList"
  let ?c3 = "SymlinkBitBinToCapsules modified"
  assume m: "getCapsulesWithModifiedPackageJson env capsulesWithPackagesData = Inr modified"
    and c: "\<forall>c \<in> set [?c0, ?c1, ?c2, ?c3].
           \<forall>(linkPath, target) \<in> set (linksOf env c).
             links w linkPath = Some target \<and> files w linkPath = None"
  from c have c0: "\<forall>(linkPath, target) \<in> set (linksOf env ?c0).
             links w linkPath = Some target \<and> files w linkPath = None"
    and c1: "\<forall>(linkPath, target) \<in> set (linksOf env ?c1).
             links (w\<lparr>calls := calls w @ [?c0]\<rparr>) linkPath = Some target
             \<and> files (w\<lparr>calls := calls w @ [?c0]\<rparr>) linkPath = None"
    and c2: "\<forall>(linkPath, target) \<in> set (linksOf env ?c2).
             links (w\<lparr>calls := calls w @ [?c0, ?c1]\<rparr>) linkPath = Some target
             \<and> files (w\<lparr>calls := calls w @ [?c0, ?c1]\<rparr>) linkPath = None"
    and c3: "\<forall>(linkPath, target) \<in> set (linksOf env ?c3).
             links (w\<lparr>calls := calls w @ [?c0, ?c1, ?c2]\<rparr>) linkPath = Some target
             \<and> files (w\<lparr>calls := calls w @ [?c0, ?c1, ?c2]\<rparr>) linkPath = None"
    by simp_all
  from establish_correct [OF c0] establish_correct [OF c1] establish_correct [OF c2]
    establish_correct [OF c3] m
  show "linkInCapsules env capsulesDir capsuleList capsulesWithPackagesData linkingOpts w
          = Inr (w\<lparr>calls := calls w @ [?c0, ?c1, ?c2, ?c3]\<rparr>)"
    by (simp add: linkInCapsules_def Let_def bindE_def linker_link_def symlinkOnCapsuleRoot_def
                  symlinkDependenciesToCapsules_def symlinkBitBinToCapsules_def)
qed

theorem linking_pass_witness:
  "(case linkInCapsules mockEnv mockRoot [capA, capB] changedA emptyLinkingOptions
           (worldOf isolatedDisk) of
      Inl e \<Rightarrow> False
    | Inr w' \<Rightarrow>
        map capsulePathsOfCall (calls w')
          = [[capsule_path capA, capsule_path capB], [capsule_path capA, capsule_path capB],
             [capsule_path capA], [capsule_path capA]]
        \<and> links w' (capsule_path capA @ [''node_modules'', ''b'']) = Some (capsule_path capB))
   \<and> getCapsulesWithModifiedPackageJson mockEnv changedA = Inr [capA]
   \<and> list_all (\<lambda>c. list_all (\<lambda>(linkPath, target).
                                 links linkedWorld linkPath = Some target
                                 \<and> files linkedWorld linkPath = None)
                      (linksOf mockEnv c))
        [LinkerLink mockRoot emptyLinkingOptions mockRoot (getPeersOnlyPolicy mockEnv)
           (toComponentMap [capA, capB]) (emptyLinkingOptions\<lparr>legacyLink := Some False\<rparr>),
         SymlinkOnCapsuleRoot [capA, capB] mockRoot,
         SymlinkDependenciesToCapsules [capA] [capA, capB],
         SymlinkBitBinToCapsules [capA]]
   \<and> (case linkInCapsules mockEnv mockRoot [capA, capB] changedA emptyLinkingOptions linkedWorld of
        Inl e \<Rightarrow> False
      | Inr w' \<Rightarrow>
          links w' = links linkedWorld \<and> files w' = files linkedWorld
          \<and> map capsulePathsOfCall (calls w')
              = [[capsule_path capA, capsule_path capB], [capsule_path capA, capsule_path capB],
                 [capsule_path capA], [capsule_path capA]])
   \<and> symlink (capsule_path capB) (capsule_path capA @ [''node_modules'', ''b'']) linkedWorld
       = Inr linkedWorld"
proof -
  let ?link = "LinkerLink mockRoot emptyLinkingOptions mockRoot (getPeersOnlyPolicy mockEnv)
                 (toComponentMap [capA, capB]) (emptyLinkingOptions\<lparr>legacyLink := Some False\<rparr>)"
  let ?c1 = "SymlinkOnCapsuleRoot [capA, capB] mockRoot"
  let ?c2 = "SymlinkDependenciesToCapsules [capA] [capA, capB]"
  let ?c3 = "SymlinkBitBinToCapsules [capA]"
  have first: "case linkInCapsules mockEnv mockRoot [capA, capB] changedA emptyLinkingOptions
               (worldOf isolatedDisk) of
          Inl e \<Rightarrow> False
        | Inr w' \<Rightarrow> links w' (capsule_path capA @ [''node_modules'', ''b'']) = Some (capsule_path capB)"
    by code_simp
  then obtain w' where
    r: "linkInCapsules mockEnv mockRoot [capA, capB] changedA emptyLinkingOptions
          (worldOf isolatedDisk) = Inr w'"
    by (auto split: sum.splits)
  have f: "map capsule (filter (\<lambda>d. wereDependenciesInPackageJsonChanged mockEnv d = Inr True) changedA)
             = [capA]"
    by code_simp
  have m: "getCapsulesWithModifiedPackageJson mockEnv changedA = Inr [capA]"
    by code_simp
  have c0: "calls (worldOf isolatedDisk) = []" "calls linkedWorld = []"
    by (simp_all add: worldOf_def linkedWorld_def)
  note T = linking_pass [of mockEnv mockRoot "[capA, capB]" changedA emptyLinkingOptions]
  from T [of "worldOf isolatedDisk" w'] r
  have "calls w' = [?link, ?c1, ?c2, ?c3]"
    by (simp only: f c0 append_Nil)
  then have p1: "map capsulePathsOfCall (calls w')
          = [[capsule_path capA, capsule_path capB], [capsule_path capA, capsule_path capB],
             [capsule_path capA], [capsule_path capA]]"
    by (simp add: toComponentMap_def)
  have ok: "list_all (\<lambda>c. list_all (\<lambda>(linkPath, target).
                                 links linkedWorld linkPath = Some target
                                 \<and> files linkedWorld linkPath = None)
                      (linksOf mockEnv c)) [?link, ?c1, ?c2, ?c3]"
    by code_simp
  then have hyp: "\<forall>c \<in> set [?link, ?c1, ?c2, ?c3].
           \<forall>(linkPath, target) \<in> set (linksOf mockEnv c).
             links linkedWorld linkPath = Some target \<and> files linkedWorld linkPath = None"
    by (simp add: list_all_iff)
  from T [of linkedWorld _ _ _ "[capA]"] m hyp
  have again: "linkInCapsules mockEnv mockRoot [capA, capB] changedA emptyLinkingOptions linkedWorld
          = Inr (linkedWorld\<lparr>calls := [?link, ?c1, ?c2, ?c3]\<rparr>)"
    by (simp only: c0 append_Nil)
  have one: "links linkedWorld (capsule_path capA @ [''node_modules'', ''b'']) = Some (capsule_path capB)"
    "files linkedWorld (capsule_path capA @ [''node_modules'', ''b'']) = None"
    by code_simp+
  from T [of linkedWorld _ "capsule_path capA @ [''node_modules'', ''b'']" "capsule_path capB"] one
  have single: "symlink (capsule_path capB) (capsule_path capA @ [''node_modules'', ''b'']) linkedWorld
       = Inr linkedWorld"
    by blast
  from first r p1 m ok again single show ?thesis
    by (simp add: toComponentMap_def)
qed

theorem linking_pass_counterexample:
  "wereDependenciesInPackageJsonChanged mockEnv unchangedA = Inr False
   \<and> (case linkInCapsules mockEnv mockRoot [capA] [unchangedA] emptyLinkingOptions
              (worldOf isolatedDisk) of
        Inl e \<Rightarrow> False
      | Inr w' \<Rightarrow>
          calls w'
            = [LinkerLink mockRoot emptyLinkingOptions mockRoot (getPeersOnlyPolicy mockEnv)
                 [(compA, capsule_path capA)] (emptyLinkingOptions\<lparr>legacyLink := Some False\<rparr>),
               SymlinkOnCapsuleRoot [capA] mockRoot,
               SymlinkDependenciesToCapsules [] [capA],
               SymlinkBitBinToCapsules []]
          \<and> map capsulePathsOfCall (calls w') = [[capsule_path capA], [capsule_path capA], [], []]
          \<and> links w' (mockRoot @ [''node_modules'', ''a'']) = Some (capsule_path capA)
          \<and> links w' (capsule_path capA @ [''node_modules'', ''.root''])
              = Some (mockRoot @ [''node_modules'']))"
  by code_simp

section \<open>The write phase\<close>















end
